theory Spec2Isabelle
  imports Main "HOL-Library.Sublist"
begin

section \<open>The video-downloader service (video-downloader/server.js)\<close>

text \<open>
  The service keeps an in-memory map \<^verbatim>\<open>downloadStatus\<close> from download ids to
  status objects, a directory \<^verbatim>\<open>DOWNLOADS_DIR\<close> of downloaded files, and runs one
  asynchronous task \<^verbatim>\<open>downloadVideoWithPuppeteer\<close> per accepted request.
  The model below follows the source function by function.  Exceptions are values:
  a computation that may throw returns \<open>string + 'a\<close>, where \<open>Inl m\<close> is a thrown
  \<^verbatim>\<open>Error\<close> with \<^verbatim>\<open>error.message = m\<close>.

  What the model fixes: a string is a list of 8-bit characters; a JSON number is an
  integer (the code only tests a number for being zero); the id that \<^verbatim>\<open>uuidv4()\<close>
  returns is an argument of the handler; each function sees the directory as one
  consistent listing, so that an \<^verbatim>\<open>fs\<close> call of the download task or of a handler
  fails only for a name that is not listed; \<^verbatim>\<open>Date.now()\<close> is read once for the filter
  of line 247.  The \<^verbatim>\<open>fs\<close> calls of the periodic sweep take their errors from an
  environment, as the browser calls do.
\<close>

subsection \<open>Strings\<close>

text \<open>\<^verbatim>\<open>s.includes(t)\<close> and \<^verbatim>\<open>s.endsWith(t)\<close> of JavaScript strings.\<close>

definition includes_str :: "string \<Rightarrow> string \<Rightarrow> bool" where
  "includes_str s t = sublist t s"

definition endsWith :: "string \<Rightarrow> string \<Rightarrow> bool" where
  "endsWith s t = suffix t s"

subsection \<open>The downloads directory\<close>

text \<open>
  Every path the service touches is \<^verbatim>\<open>path.join(DOWNLOADS_DIR, name)\<close> for a plain file
  name, so a path is modelled by that name and the directory by its entries in the
  order \<^verbatim>\<open>fs.readdir\<close> lists them.  Of \<^verbatim>\<open>fs.Stats\<close> the code reads
  \<^verbatim>\<open>mtime.getTime()\<close> (milliseconds since the epoch) and \<^verbatim>\<open>size\<close> (bytes).
\<close>

record file_stat =
  mtime :: int
  size_bytes :: nat

type_synonym directory = "(string \<times> file_stat) list"

definition readdir :: "directory \<Rightarrow> string list" where
  "readdir d = map fst d"

definition statSync :: "directory \<Rightarrow> string \<Rightarrow> string + file_stat" where
  "statSync d file =
     (case map_of d file of
        None \<Rightarrow> Inl (''ENOENT: no such file or directory, stat '' @ file)
      | Some st \<Rightarrow> Inr st)"

definition pathExists :: "directory \<Rightarrow> string \<Rightarrow> bool" where
  "pathExists d file = (map_of d file \<noteq> None)"

definition unlink :: "directory \<Rightarrow> string \<Rightarrow> directory" where
  "unlink d file = filter (\<lambda>e. fst e \<noteq> file) d"

text \<open>\<^verbatim>\<open>fs.move(oldPath, finalPath, { overwrite: true })\<close>: a rename that replaces
  whatever is at the destination and keeps the file's stats.\<close>

definition move_overwrite :: "directory \<Rightarrow> string \<Rightarrow> string \<Rightarrow> string + directory" where
  "move_overwrite d oldPath finalPath =
     (case map_of d oldPath of
        None \<Rightarrow> Inl (''ENOENT: no such file or directory, rename '' @ oldPath)
      | Some st \<Rightarrow> Inr (unlink (unlink d oldPath) finalPath @ [(finalPath, st)]))"

subsection \<open>Finding the downloaded file (server.js, lines 245--299)\<close>

text \<open>
  The filter callback of line 247:
  \<^verbatim>\<open>file.includes(downloadId) || (file.endsWith('.mp4') || file.endsWith('.mp3')) &&
  fs.statSync(...).mtime.getTime() > (Date.now() - 60000)\<close>.
  In JavaScript \<^verbatim>\<open>&&\<close> binds tighter than \<^verbatim>\<open>||\<close>, and both short-circuit, so
  \<^verbatim>\<open>statSync\<close> runs only for a media file whose name lacks the id.
\<close>

definition isVideoFile :: "int \<Rightarrow> directory \<Rightarrow> string \<Rightarrow> string \<Rightarrow> string + bool" where
  "isVideoFile now d downloadId file =
     (if includes_str file downloadId then Inr True
      else if endsWith file ''.mp4'' \<or> endsWith file ''.mp3'' then
        (case statSync d file of
           Inl e \<Rightarrow> Inl e
         | Inr st \<Rightarrow> Inr (mtime st > now - 60000))
      else Inr False)"

fun filterVideoFiles :: "int \<Rightarrow> directory \<Rightarrow> string \<Rightarrow> string list \<Rightarrow> string + string list" where
  "filterVideoFiles now d downloadId [] = Inr []"
| "filterVideoFiles now d downloadId (file # files) =
     (case isVideoFile now d downloadId file of
        Inl e \<Rightarrow> Inl e
      | Inr keep \<Rightarrow>
          (case filterVideoFiles now d downloadId files of
             Inl e \<Rightarrow> Inl e
           | Inr rest \<Rightarrow> Inr (if keep then file # rest else rest)))"

text \<open>
  \<^verbatim>\<open>videoFiles.reduce((latest, current) => stat(current).mtime > stat(latest).mtime
  ? current : latest)\<close> without an initial value: the first element starts as
  \<open>latest\<close>, and the callback runs for the others from left to right.
\<close>

fun reduce_latest :: "directory \<Rightarrow> string \<Rightarrow> string list \<Rightarrow> string + string" where
  "reduce_latest d latest [] = Inr latest"
| "reduce_latest d latest (current # rest) =
     (case statSync d current of
        Inl e \<Rightarrow> Inl e
      | Inr cs \<Rightarrow>
          (case statSync d latest of
             Inl e \<Rightarrow> Inl e
           | Inr ls \<Rightarrow> reduce_latest d (if mtime cs > mtime ls then current else latest) rest))"

text \<open>Lines 253--271: pick the latest candidate and move it to
  \<^verbatim>\<open>${downloadId}.${format}\<close> unless it is there already.\<close>

definition canonical_name :: "string \<Rightarrow> string \<Rightarrow> string" where
  "canonical_name downloadId format = downloadId @ ''.'' @ format"

definition rename_latest :: "directory \<Rightarrow> string \<Rightarrow> string list \<Rightarrow> string + directory" where
  "rename_latest d finalPath videoFiles =
     (case videoFiles of
        [] \<Rightarrow> Inr d
      | first # others \<Rightarrow>
          (case reduce_latest d first others of
             Inl e \<Rightarrow> Inl e
           | Inr latestFile \<Rightarrow>
               if latestFile \<noteq> finalPath then move_overwrite d latestFile finalPath
               else Inr d))"

text \<open>Lines 273--299: the file must exist and have more than 1000 bytes.  The
  message of line 295 has three letters outside ASCII, given by their code points.\<close>

definition too_small :: string where
  "too_small = ''Archivo descargado est'' @ [CHR 0xE1] @ '' vac'' @ [CHR 0xED]
                 @ ''o o es muy peque'' @ [CHR 0xF1] @ ''o''"

definition verify_file :: "directory \<Rightarrow> string \<Rightarrow> string + (string \<times> nat)" where
  "verify_file d finalPath =
     (if pathExists d finalPath then
        (case statSync d finalPath of
           Inl e \<Rightarrow> Inl e
         | Inr stats \<Rightarrow>
             if size_bytes stats > 1000 then Inr (finalPath, size_bytes stats)
             else Inl too_small)
      else Inl ''No se pudo completar la descarga'')"

text \<open>The whole of lines 245--299, from \<^verbatim>\<open>fs.readdir\<close> to the verdict: the new
  directory, and the verified path and size or the thrown message.\<close>

definition materialize ::
  "int \<Rightarrow> directory \<Rightarrow> string \<Rightarrow> string \<Rightarrow> directory \<times> (string + (string \<times> nat))" where
  "materialize now d downloadId format =
     (let finalPath = canonical_name downloadId format in
      case filterVideoFiles now d downloadId (readdir d) of
        Inl e \<Rightarrow> (d, Inl e)
      | Inr videoFiles \<Rightarrow>
          (case rename_latest d finalPath videoFiles of
             Inl e \<Rightarrow> (d, Inl e)
           | Inr d' \<Rightarrow> (d', verify_file d' finalPath)))"

text \<open>The modification time of a listed file, for stating properties.\<close>

definition mtime_of :: "directory \<Rightarrow> string \<Rightarrow> int" where
  "mtime_of d file = (case map_of d file of None \<Rightarrow> 0 | Some st \<Rightarrow> mtime st)"

subsection \<open>Removing old files (server.js, lines 27--46)\<close>

text \<open>
  \<^verbatim>\<open>cleanupOldFiles\<close> computes \<^verbatim>\<open>oneHourAgo\<close> once, lists the directory, and for
  each listed file stats it and unlinks it when \<^verbatim>\<open>stats.mtime.getTime() < oneHourAgo\<close>.
  Each of the three \<^verbatim>\<open>fs\<close> calls hands an error to its callback when it fails: the
  callback of \<^verbatim>\<open>fs.readdir\<close> returns on it (line 32) and nothing is swept, the
  callback of \<^verbatim>\<open>fs.stat\<close> returns on it (line 37) and the file is skipped, and the
  callback of \<^verbatim>\<open>fs.unlink\<close> ignores it (line 39), so the file stays.  Which calls
  fail in a sweep is given by the environment: \<open>Inl m\<close> is an error with message \<open>m\<close>.
  The function reads nothing but the clock and the directory.
\<close>

record sweep_env =
  sweep_readdir :: "string + unit"
  sweep_stat :: "string \<Rightarrow> string + unit"
  sweep_unlink :: "string \<Rightarrow> string + unit"

definition sweep_file :: "sweep_env \<Rightarrow> int \<Rightarrow> directory \<Rightarrow> string \<Rightarrow> directory" where
  "sweep_file senv oneHourAgo d file =
     (case sweep_stat senv file of
        Inl err \<Rightarrow> d
      | Inr u \<Rightarrow>
          (case statSync d file of
             Inl err \<Rightarrow> d
           | Inr stats \<Rightarrow>
               if mtime stats < oneHourAgo then
                 (case sweep_unlink senv file of
                    Inl err \<Rightarrow> d
                  | Inr u \<Rightarrow> unlink d file)
               else d))"

definition cleanupOldFiles :: "sweep_env \<Rightarrow> int \<Rightarrow> directory \<Rightarrow> directory" where
  "cleanupOldFiles senv now d =
     (let oneHourAgo = now - 60 * 60 * 1000 in
      case sweep_readdir senv of
        Inl err \<Rightarrow> d
      | Inr u \<Rightarrow> fold (\<lambda>file dir. sweep_file senv oneHourAgo dir file) (readdir d) d)"

subsection \<open>The job store and the state of the service\<close>

text \<open>The values of the \<^verbatim>\<open>status\<close> field, in the order the task writes them.\<close>

datatype phase = Starting | Loading | Filling | Processing | Downloading | Completed | Error

fun phase_name :: "phase \<Rightarrow> string" where
  "phase_name Starting = ''starting''"
| "phase_name Loading = ''loading''"
| "phase_name Filling = ''filling''"
| "phase_name Processing = ''processing''"
| "phase_name Downloading = ''downloading''"
| "phase_name Completed = ''completed''"
| "phase_name Error = ''error''"

fun phase_rank :: "phase \<Rightarrow> nat" where
  "phase_rank Starting = 0"
| "phase_rank Loading = 1"
| "phase_rank Filling = 2"
| "phase_rank Processing = 3"
| "phase_rank Downloading = 4"
| "phase_rank Completed = 5"
| "phase_rank Error = 5"

definition terminal :: "phase \<Rightarrow> bool" where
  "terminal p = (p = Completed \<or> p = Error)"

text \<open>A value of the \<^verbatim>\<open>downloadStatus\<close> map; \<^verbatim>\<open>filePath\<close> and \<^verbatim>\<open>fileSize\<close> are
  present only in the object written on completion.\<close>

record job_status =
  status :: phase
  progress :: nat
  message :: string
  filePath :: "string option"
  fileSize :: "nat option"

datatype json =
    JNull
  | JBool bool
  | JNumber int
  | JString string
  | JArray "json list"
  | JObject "(string \<times> json) list"

text \<open>
  The state of the process: the \<^verbatim>\<open>downloadStatus\<close> map, the downloads directory,
  the tasks that were started and have not run past their first \<^verbatim>\<open>await\<close>
  (\<open>videoUrl\<close>, \<open>format\<close>, \<open>downloadId\<close>), and, for stating properties of the writes,
  the log of every \<^verbatim>\<open>downloadStatus.set(key, value)\<close> call, oldest first.
\<close>

record world =
  downloadStatus :: "string \<rightharpoonup> job_status"
  downloads :: directory
  pending :: "(json \<times> string \<times> string) list"
  set_calls :: "(string \<times> job_status) list"

subsection \<open>Statements that change the state and may throw\<close>

type_synonym 'a prog = "world \<Rightarrow> world \<times> (string + 'a)"

definition ret :: "'a \<Rightarrow> 'a prog" where
  "ret x = (\<lambda>w. (w, Inr x))"

definition throw :: "string \<Rightarrow> 'a prog" where
  "throw e = (\<lambda>w. (w, Inl e))"

text \<open>An awaited call into the browser: its outcome is given by the environment.\<close>

definition await :: "string + 'a \<Rightarrow> 'a prog" where
  "await outcome = (\<lambda>w. (w, outcome))"

definition and_then :: "'a prog \<Rightarrow> ('a \<Rightarrow> 'b prog) \<Rightarrow> 'b prog" where
  "and_then m f = (\<lambda>w. case m w of (w', Inl e) \<Rightarrow> (w', Inl e) | (w', Inr x) \<Rightarrow> f x w')"

definition try_catch :: "'a prog \<Rightarrow> (string \<Rightarrow> 'a prog) \<Rightarrow> 'a prog" where
  "try_catch body handler =
     (\<lambda>w. case body w of (w', Inl e) \<Rightarrow> handler e w' | (w', Inr x) \<Rightarrow> (w', Inr x))"

text \<open>\<^verbatim>\<open>try { body } finally { fin }\<close>: \<open>fin\<close> runs on every exit, and what it
  throws replaces the result of the body.\<close>

definition try_finally :: "'a prog \<Rightarrow> unit prog \<Rightarrow> 'a prog" where
  "try_finally body fin =
     (\<lambda>w. case body w of
             (w', r) \<Rightarrow> (case fin w' of (w'', Inl e) \<Rightarrow> (w'', Inl e) | (w'', Inr u) \<Rightarrow> (w'', r)))"

definition status_set :: "string \<Rightarrow> job_status \<Rightarrow> unit prog" where
  "status_set key val =
     (\<lambda>w. (w\<lparr>downloadStatus := (downloadStatus w)(key \<mapsto> val),
              set_calls := set_calls w @ [(key, val)]\<rparr>, Inr ()))"

text \<open>A file written into the downloads directory from outside the process's own
  \<^verbatim>\<open>fs\<close> calls (the browser saving a download or a screenshot).\<close>

definition write_file :: "directory \<Rightarrow> string \<times> file_stat \<Rightarrow> directory" where
  "write_file d entry = unlink d (fst entry) @ [entry]"

definition browser_writes :: "(string \<times> file_stat) list \<Rightarrow> unit prog" where
  "browser_writes entries = (\<lambda>w. (w\<lparr>downloads := foldl write_file (downloads w) entries\<rparr>, Inr ()))"

text \<open>Lines 245--299 as a statement on the state.\<close>

definition materialize_step :: "int \<Rightarrow> string \<Rightarrow> string \<Rightarrow> (string \<times> nat) prog" where
  "materialize_step now downloadId format =
     (\<lambda>w. case materialize now (downloads w) downloadId format of
             (d', r) \<Rightarrow> (w\<lparr>downloads := d'\<rparr>, r))"

subsection \<open>The download task (server.js, lines 51--319)\<close>

text \<open>
  What the browser and the clock do is outside the program: one field per awaited call
  gives its outcome in this run, \<open>Inl m\<close> when the call throws.  \<open>on_urlInput\<close> and
  \<open>on_findDownloadButton\<close> tell whether the call returned a non-null value;
  \<open>on_screenshot\<close> gives the stats of the screenshot file written; \<open>arrived\<close> are the
  files the browser saved into the downloads directory after the click; \<open>clock\<close> is
  \<^verbatim>\<open>Date.now()\<close> when the directory is filtered.
\<close>

record browser_env =
  on_launch :: "string + unit"
  on_newPage :: "string + unit"
  on_setViewport :: "string + unit"
  on_setUserAgent :: "string + unit"
  on_goto :: "string + unit"
  on_waitForSelector :: "string + unit"
  on_urlInput :: "string + bool"
  on_input_click :: "string + unit"
  on_input_clear :: "string + unit"
  on_input_type :: "string + unit"
  on_wait_3000 :: "string + unit"
  on_findDownloadButton :: "string + bool"
  on_screenshot :: "string + file_stat"
  on_pageContent :: "string + unit"
  on_button_info :: "string + unit"
  on_setDownloadBehavior :: "string + unit"
  on_button_click :: "string + unit"
  arrived :: "(string \<times> file_stat) list"
  on_wait_10000 :: "string + unit"
  clock :: int
  on_close :: "string + unit"

text \<open>The objects of lines 57, 277--283 and 303--307.\<close>

definition starting_status :: job_status where
  "starting_status =
     \<lparr>status = Starting, progress = 0, message = ''Iniciando navegador...'',
      filePath = None, fileSize = None\<rparr>"

definition completed_status :: "string \<Rightarrow> nat \<Rightarrow> job_status" where
  "completed_status finalPath bytes =
     \<lparr>status = Completed, progress = 100, message = ''Descarga completada exitosamente'',
      filePath = Some finalPath, fileSize = Some bytes\<rparr>"

definition error_status :: "string \<Rightarrow> job_status" where
  "error_status e =
     \<lparr>status = Error, progress = 0, message = ''Error: '' @ e,
      filePath = None, fileSize = None\<rparr>"

text \<open>The object the task returns.\<close>

datatype pipeline_result =
    Success string string nat string
  | Failure string string

text \<open>Lines 165--189: no button was found.  The screenshot is saved as
  \<^verbatim>\<open>debug_${downloadId}.png\<close>, page information is logged, and the task throws.\<close>

definition no_button_found :: "browser_env \<Rightarrow> string \<Rightarrow> unit prog" where
  "no_button_found env downloadId =
     and_then (await (on_screenshot env)) (\<lambda>shot.
     and_then (browser_writes [(''debug_'' @ downloadId @ ''.png'', shot)]) (\<lambda>_.
     and_then (await (on_pageContent env)) (\<lambda>_.
     throw (''No se encontr'' @ [CHR 0xF3] @ '' el bot'' @ [CHR 0xF3]
            @ ''n de descarga. Ver debug screenshot.''))))"

text \<open>
  Lines 59--299, the \<^verbatim>\<open>try\<close> block from \<^verbatim>\<open>puppeteer.launch\<close> on.  The form
  submission of lines 110--120 sits in a \<^verbatim>\<open>try\<close> of its own whose \<^verbatim>\<open>catch\<close> only
  logs, and the wait for \<^verbatim>\<open>downloadPromise\<close> of lines 235--240 likewise: neither
  touches the map or the directory, and neither can leave the block.
\<close>

definition automation :: "browser_env \<Rightarrow> json \<Rightarrow> string \<Rightarrow> string \<Rightarrow> pipeline_result prog" where
  "automation env videoUrl format downloadId =
     and_then (await (on_launch env)) (\<lambda>_.
     and_then (await (on_newPage env)) (\<lambda>_.
     and_then (await (on_setViewport env)) (\<lambda>_.
     and_then (await (on_setUserAgent env)) (\<lambda>_.
     and_then (status_set downloadId
        \<lparr>status = Loading, progress = 10, message = ''Cargando kick-video.download...'',
         filePath = None, fileSize = None\<rparr>) (\<lambda>_.
     and_then (await (on_goto env)) (\<lambda>_.
     and_then (status_set downloadId
        \<lparr>status = Filling, progress = 25, message = ''Ingresando URL del video...'',
         filePath = None, fileSize = None\<rparr>) (\<lambda>_.
     and_then (await (on_waitForSelector env)) (\<lambda>_.
     and_then (await (on_urlInput env)) (\<lambda>urlInput.
     and_then (if \<not> urlInput
               then throw (''No se encontr'' @ [CHR 0xF3] @ '' el campo de URL'')
               else ret ()) (\<lambda>_.
     and_then (await (on_input_click env)) (\<lambda>_.
     and_then (await (on_input_clear env)) (\<lambda>_.
     and_then (await (on_input_type env)) (\<lambda>_.
     and_then (status_set downloadId
        \<lparr>status = Processing, progress = 50, message = ''Procesando video...'',
         filePath = None, fileSize = None\<rparr>) (\<lambda>_.
     and_then (await (on_wait_3000 env)) (\<lambda>_.
     and_then (await (on_findDownloadButton env)) (\<lambda>downloadButton.
     and_then (if \<not> downloadButton then no_button_found env downloadId else ret ()) (\<lambda>_.
     and_then (await (on_button_info env)) (\<lambda>_.
     and_then (status_set downloadId
        \<lparr>status = Downloading, progress = 75, message = ''Iniciando descarga...'',
         filePath = None, fileSize = None\<rparr>) (\<lambda>_.
     and_then (await (on_setDownloadBehavior env)) (\<lambda>_.
     and_then (await (on_button_click env)) (\<lambda>_.
     and_then (browser_writes (arrived env)) (\<lambda>_.
     and_then (await (on_wait_10000 env)) (\<lambda>_.
     and_then (materialize_step (clock env) downloadId format) (\<lambda>found.
     and_then (status_set downloadId (completed_status (fst found) (snd found))) (\<lambda>_.
     ret (Success downloadId (fst found) (snd found) ''Descarga completada exitosamente'')
     )))))))))))))))))))))))))"

text \<open>Lines 301--313, the \<^verbatim>\<open>catch\<close> block, and lines 314--318, the \<^verbatim>\<open>finally\<close>
  block, which closes the browser when one was launched.\<close>

definition catch_block :: "string \<Rightarrow> string \<Rightarrow> pipeline_result prog" where
  "catch_block downloadId e =
     and_then (status_set downloadId (error_status e)) (\<lambda>_.
     ret (Failure downloadId e))"

definition finally_block :: "browser_env \<Rightarrow> unit prog" where
  "finally_block env = (if isl (on_launch env) then ret () else await (on_close env))"

text \<open>The \<^verbatim>\<open>try\<close> block, lines 56--299: line 57, then the rest.\<close>

definition set_starting :: "string \<Rightarrow> unit prog" where
  "set_starting downloadId = status_set downloadId starting_status"

definition try_block :: "browser_env \<Rightarrow> json \<Rightarrow> string \<Rightarrow> string \<Rightarrow> pipeline_result prog" where
  "try_block env videoUrl format downloadId =
     and_then (set_starting downloadId) (\<lambda>_. automation env videoUrl format downloadId)"

definition downloadVideoWithPuppeteer ::
  "browser_env \<Rightarrow> json \<Rightarrow> string \<Rightarrow> string \<Rightarrow> pipeline_result prog" where
  "downloadVideoWithPuppeteer env videoUrl format downloadId =
     try_finally
       (try_catch (try_block env videoUrl format downloadId) (catch_block downloadId))
       (finally_block env)"

text \<open>
  An \<^verbatim>\<open>async\<close> function runs synchronously up to its first \<^verbatim>\<open>await\<close>, here the one
  on \<^verbatim>\<open>puppeteer.launch\<close>, and returns a promise there; the rest runs in later turns
  of the event loop.  \<open>start_task\<close> is the first part and \<open>resume_task\<close> the rest.  The
  rest is modelled as one step: other requests and tasks do run between its awaits, and
  they write other keys of the map.
\<close>

definition start_task :: "string \<Rightarrow> world \<Rightarrow> world" where
  "start_task downloadId w = fst (set_starting downloadId w)"

definition resume_task ::
  "browser_env \<Rightarrow> json \<Rightarrow> string \<Rightarrow> string \<Rightarrow> pipeline_result prog" where
  "resume_task env videoUrl format downloadId =
     try_finally
       (try_catch (automation env videoUrl format downloadId) (catch_block downloadId))
       (finally_block env)"

definition run_pending :: "browser_env \<Rightarrow> world \<Rightarrow> world" where
  "run_pending env w =
     (case pending w of
        [] \<Rightarrow> w
      | (videoUrl, format, downloadId) # rest \<Rightarrow>
          fst (resume_task env videoUrl format downloadId (w\<lparr>pending := rest\<rparr>)))"

text \<open>The periodic sweep on the state: only the directory changes.\<close>

definition janitor :: "sweep_env \<Rightarrow> int \<Rightarrow> world \<Rightarrow> world" where
  "janitor senv now w = w\<lparr>downloads := cleanupOldFiles senv now (downloads w)\<rparr>"

subsection \<open>The HTTP handlers (server.js, lines 333--432)\<close>

text \<open>A response is \<^verbatim>\<open>res.status(code).json(body)\<close>, or the file stream of lines
  419--427 with its three headers and the path streamed.\<close>

datatype http_response =
    JsonResponse nat "(string \<times> json) list"
  | FileResponse string nat string string

text \<open>The fields of \<^verbatim>\<open>req.body\<close> the handler destructures; \<open>None\<close> is
  \<^verbatim>\<open>undefined\<close>.\<close>

record request_body =
  body_videoUrl :: "json option"
  body_format :: "json option"
  body_title :: "json option"

text \<open>\<^verbatim>\<open>!videoUrl\<close> is true for undefined, null, false, 0 and the empty string.\<close>

fun truthy :: "json option \<Rightarrow> bool" where
  "truthy None = False"
| "truthy (Some JNull) = False"
| "truthy (Some (JBool b)) = b"
| "truthy (Some (JNumber n)) = (n \<noteq> 0)"
| "truthy (Some (JString s)) = (s \<noteq> [])"
| "truthy (Some (JArray xs)) = True"
| "truthy (Some (JObject kvs)) = True"

fun string_value :: "json \<Rightarrow> string" where
  "string_value (JString s) = s"
| "string_value v = []"

text \<open>
  \<^verbatim>\<open>app.post('/download')\<close>.  \<open>uuid\<close> is what \<^verbatim>\<open>uuidv4()\<close> returns in this request.
  The call of line 359 is not awaited: the handler gets the promise back when the task
  reaches its first \<^verbatim>\<open>await\<close>, drops it, and sends the response.
\<close>

definition post_download :: "request_body \<Rightarrow> string \<Rightarrow> world \<Rightarrow> world \<times> http_response" where
  "post_download body uuid w =
     (let videoUrl = body_videoUrl body;
          format = (case body_format body of None \<Rightarrow> JString ''mp4'' | Some f \<Rightarrow> f)
      in
      if \<not> truthy videoUrl then
        (w, JsonResponse 400
              [(''error'', JString ''URL del video es requerida''),
               (''required_fields'', JArray [JString ''videoUrl'']),
               (''optional_fields'', JArray [JString ''format'', JString ''title''])])
      else if \<not> (format = JString ''mp4'' \<or> format = JString ''mp3'') then
        (w, JsonResponse 400
              [(''error'', JString (''Formato inv'' @ [CHR 0xE1] @ ''lido. Use mp4 o mp3'')),
               (''supported_formats'', JArray [JString ''mp4'', JString ''mp3''])])
      else
        (let downloadId = uuid;
             w' = start_task downloadId w
         in (w'\<lparr>pending := pending w' @ [(the videoUrl, string_value format, downloadId)]\<rparr>,
             JsonResponse 200
               [(''success'', JBool True),
                (''downloadId'', JString downloadId),
                (''message'', JString ''Descarga iniciada''),
                (''statusUrl'', JString (''/status/'' @ downloadId)),
                (''downloadUrl'', JString (''/file/'' @ downloadId))])))"

text \<open>
  \<^verbatim>\<open>app.get('/file/:downloadId')\<close>.  \<^verbatim>\<open>fs.existsSync(undefined)\<close> is false.  A
  \<^verbatim>\<open>statSync\<close> that throws reaches the error middleware of lines 465--471.
\<close>

definition existsSync :: "directory \<Rightarrow> string \<Rightarrow> bool" where
  "existsSync d file = (map_of d file \<noteq> None)"

definition get_file :: "string \<Rightarrow> world \<Rightarrow> http_response" where
  "get_file downloadId w =
     (case downloadStatus w downloadId of
        None \<Rightarrow>
          JsonResponse 404
            [(''error'', JString ''ID de descarga no encontrado''),
             (''downloadId'', JString downloadId)]
      | Some st \<Rightarrow>
          if status st \<noteq> Completed then
            JsonResponse 202
              [(''error'', JString (''Descarga a'' @ [CHR 0xFA] @ ''n en progreso'')),
               (''status'', JString (phase_name (status st))),
               (''progress'', JNumber (int (progress st))),
               (''message'', JString (message st))]
          else
            (case filePath st of
               None \<Rightarrow>
                 JsonResponse 404
                   [(''error'', JString ''Archivo no encontrado''),
                    (''downloadId'', JString downloadId)]
             | Some path \<Rightarrow>
                 if \<not> existsSync (downloads w) path then
                   JsonResponse 404
                     [(''error'', JString ''Archivo no encontrado''),
                      (''downloadId'', JString downloadId)]
                 else
                   (case statSync (downloads w) path of
                      Inl e \<Rightarrow>
                        JsonResponse 500
                          [(''error'', JString ''Error interno del servidor''),
                           (''message'', JString e)]
                    | Inr stats \<Rightarrow>
                        FileResponse
                          (''attachment; filename='' @ [CHR 0x22] @ path @ [CHR 0x22])
                          (size_bytes stats)
                          ''application/octet-stream''
                          path)))"

text \<open>The state of the service when it starts, and what shows a response's code.\<close>

definition initial_world :: "directory \<Rightarrow> world" where
  "initial_world d = \<lparr>downloadStatus = Map.empty, downloads = d, pending = [], set_calls = []\<rparr>"

fun status_code :: "http_response \<Rightarrow> nat" where
  "status_code (JsonResponse code body) = code"
| "status_code (FileResponse disposition len ctype path) = 200"

subsection \<open>Notions for stating and proving the properties\<close>

text \<open>The \<^verbatim>\<open>downloadStatus.set\<close> calls made by one run of the task.\<close>

definition run_writes ::
  "browser_env \<Rightarrow> json \<Rightarrow> string \<Rightarrow> string \<Rightarrow> world \<Rightarrow> (string \<times> job_status) list" where
  "run_writes env videoUrl format downloadId w =
     drop (length (set_calls w))
       (set_calls (fst (downloadVideoWithPuppeteer env videoUrl format downloadId w)))"

text \<open>A statement that makes no \<^verbatim>\<open>downloadStatus.set\<close> call; and a statement whose
  calls are all for key \<open>k\<close> and write the phases \<open>ps\<close> in order: all of them when it
  returns, and only some first ones, not all, when it throws.\<close>

definition silent :: "'a prog \<Rightarrow> bool" where
  "silent m = (\<forall>w. set_calls (fst (m w)) = set_calls w)"

definition appends :: "'a prog \<Rightarrow> string \<Rightarrow> phase list \<Rightarrow> bool" where
  "appends m k ps =
     (\<forall>w. \<exists>cs. set_calls (fst (m w)) = set_calls w @ cs \<and> list_all (\<lambda>c. fst c = k) cs \<and>
        (case snd (m w) of
           Inl e \<Rightarrow> strict_prefix (map (\<lambda>c. status (snd c)) cs) ps
         | Inr x \<Rightarrow> map (\<lambda>c. status (snd c)) cs = ps))"

text \<open>The phase sequences a run can write.\<close>

definition walks :: "phase list set" where
  "walks =
     {[Starting, Error],
      [Starting, Loading, Error],
      [Starting, Loading, Filling, Error],
      [Starting, Loading, Filling, Processing, Error],
      [Starting, Loading, Filling, Processing, Downloading, Error],
      [Starting, Loading, Filling, Processing, Downloading, Completed]}"

text \<open>A \<^verbatim>\<open>format\<close> field the handler accepts: absent (the default \<^verbatim>\<open>'mp4'\<close>
  applies), or one of the two strings of line 345.\<close>

definition supported :: "json option \<Rightarrow> bool" where
  "supported f = (f = None \<or> f = Some (JString ''mp4'') \<or> f = Some (JString ''mp3''))"

text \<open>The browser calls up to the listing of the directory all succeed, the URL field
  and the download button are found.\<close>

definition reaches_materializer :: "browser_env \<Rightarrow> bool" where
  "reaches_materializer env =
     (on_launch env = Inr () \<and> on_newPage env = Inr () \<and> on_setViewport env = Inr () \<and>
      on_setUserAgent env = Inr () \<and> on_goto env = Inr () \<and> on_waitForSelector env = Inr () \<and>
      on_urlInput env = Inr True \<and> on_input_click env = Inr () \<and> on_input_clear env = Inr () \<and>
      on_input_type env = Inr () \<and> on_wait_3000 env = Inr () \<and>
      on_findDownloadButton env = Inr True \<and> on_button_info env = Inr () \<and>
      on_setDownloadBehavior env = Inr () \<and> on_button_click env = Inr () \<and>
      on_wait_10000 env = Inr ())"

text \<open>The directory the task lists: the one it started with and the files that
  arrived.\<close>

definition seen_dir :: "browser_env \<Rightarrow> world \<Rightarrow> directory" where
  "seen_dir env w = foldl write_file (downloads w) (arrived env)"

text \<open>For the proofs: a postcondition on the state and result of a statement, and
  what holds after the \<^verbatim>\<open>try\<close> block.\<close>

definition wp :: "'a prog \<Rightarrow> (world \<Rightarrow> string + 'a \<Rightarrow> bool) \<Rightarrow> world \<Rightarrow> bool" where
  "wp m Q w = (case m w of (w', r) \<Rightarrow> Q w' r)"

definition try_post ::
  "browser_env \<Rightarrow> string \<Rightarrow> string \<Rightarrow> world \<Rightarrow> world \<Rightarrow> string + pipeline_result \<Rightarrow> bool" where
  "try_post env k fmt w w' r =
     (case r of
        Inl e \<Rightarrow> reaches_materializer env \<longrightarrow>
                   materialize (clock env) (seen_dir env w) k fmt = (downloads w', Inl e)
      | Inr res \<Rightarrow> \<exists>found.
          materialize (clock env) (seen_dir env w) k fmt = (downloads w', Inr found) \<and>
          downloadStatus w' k = Some (completed_status (fst found) (snd found)))"

text \<open>An entry the sweep removes: older than the threshold \<open>h\<close>, and neither its
  \<^verbatim>\<open>stat\<close> nor its \<^verbatim>\<open>unlink\<close> fails.\<close>

definition reaped :: "sweep_env \<Rightarrow> int \<Rightarrow> string \<times> file_stat \<Rightarrow> bool" where
  "reaped senv h e =
     (mtime (snd e) < h \<and> \<not> isl (sweep_stat senv (fst e)) \<and>
      \<not> isl (sweep_unlink senv (fst e)))"

subsection \<open>Concrete inputs\<close>

definition sweep_ok :: sweep_env where
  "sweep_ok =
     \<lparr>sweep_readdir = Inr (), sweep_stat = (\<lambda>name. Inr ()),
      sweep_unlink = (\<lambda>name. Inr ())\<rparr>"

definition sweep_busy :: sweep_env where
  "sweep_busy =
     \<lparr>sweep_readdir = Inr (), sweep_stat = (\<lambda>name. Inr ()),
      sweep_unlink = (\<lambda>name. if name = ''old.mp4''
         then Inl ''EBUSY: resource busy or locked, unlink'' else Inr ())\<rparr>"

definition dir_sweep :: directory where
  "dir_sweep =
     [(''old.mp4'', \<lparr>mtime = 1000, size_bytes = 5000\<rparr>),
      (''job1.mp4'', \<lparr>mtime = 7000000, size_bytes = 7000\<rparr>),
      (''edge.mp3'', \<lparr>mtime = 6400000, size_bytes = 10\<rparr>)]"

definition body_mp3 :: request_body where
  "body_mp3 = \<lparr>body_videoUrl = Some (JString ''https://kick.com/video/1''),
               body_format = Some (JString ''mp3''), body_title = None\<rparr>"

definition body_avi :: request_body where
  "body_avi = \<lparr>body_videoUrl = Some (JString ''https://kick.com/video/1''),
               body_format = Some (JString ''avi''), body_title = None\<rparr>"

definition body_no_url :: request_body where
  "body_no_url = \<lparr>body_videoUrl = None, body_format = Some (JString ''mp4''),
                  body_title = None\<rparr>"

definition dir_before :: directory where
  "dir_before =
     [(''a.mp4'', \<lparr>mtime = 990000, size_bytes = 5000\<rparr>),
      (''job1_clip.bin'', \<lparr>mtime = 995000, size_bytes = 2000\<rparr>),
      (''stale.mp4'', \<lparr>mtime = 100, size_bytes = 9000\<rparr>),
      (''job1.mp4'', \<lparr>mtime = 50, size_bytes = 1\<rparr>)]"

definition dir_three :: directory where
  "dir_three = dir_before @ [(''b.mp3'', \<lparr>mtime = 999000, size_bytes = 800\<rparr>)]"

definition env_ok :: browser_env where
  "env_ok =
     \<lparr>on_launch = Inr (), on_newPage = Inr (), on_setViewport = Inr (),
      on_setUserAgent = Inr (), on_goto = Inr (), on_waitForSelector = Inr (),
      on_urlInput = Inr True, on_input_click = Inr (), on_input_clear = Inr (),
      on_input_type = Inr (), on_wait_3000 = Inr (), on_findDownloadButton = Inr True,
      on_screenshot = Inl ''no screenshot'', on_pageContent = Inr (),
      on_button_info = Inr (), on_setDownloadBehavior = Inr (), on_button_click = Inr (),
      arrived = [(''video.mp4'', \<lparr>mtime = 999000, size_bytes = 5000\<rparr>)],
      on_wait_10000 = Inr (), clock = 1000000, on_close = Inr ()\<rparr>"

definition env_timeout :: browser_env where
  "env_timeout = env_ok\<lparr>on_goto := Inl ''Navigation timeout of 30000 ms exceeded''\<rparr>"

definition env_small :: browser_env where
  "env_small = env_ok\<lparr>arrived := [(''b.mp3'', \<lparr>mtime = 999000, size_bytes = 800\<rparr>)]\<rparr>"

definition ok_world :: world where
  "ok_world = fst (downloadVideoWithPuppeteer env_ok (JString ''https://kick.com/video/1'')
                     ''mp4'' ''job1'' (initial_world []))"

definition small_world :: world where
  "small_world = fst (downloadVideoWithPuppeteer env_small (JString ''https://kick.com/video/1'')
                     ''mp4'' ''job1'' (initial_world dir_before))"

definition failed_world :: world where
  "failed_world = fst (downloadVideoWithPuppeteer env_timeout
                         (JString ''https://kick.com/video/1'') ''mp4'' ''job1''
                         (initial_world []))"

definition starting_world :: world where
  "starting_world = fst (post_download body_mp3 ''id-1'' (initial_world []))"

definition swept_world :: world where
  "swept_world = janitor sweep_ok 8200000 ok_world"

section \<open>Properties\<close>

subsection \<open>The candidate filter\<close>

lemma statSync_listed:
  "file \<in> set (readdir d) \<Longrightarrow> \<exists>st. statSync d file = Inr st \<and> map_of d file = Some st"
  unfolding readdir_def statSync_def
  by (cases "map_of d file") (auto simp: map_of_eq_None_iff)

lemma isVideoFile_listed:
  "file \<in> set (readdir d) \<Longrightarrow>
   isVideoFile now d downloadId file =
     Inr (includes_str file downloadId \<or>
          (endsWith file ''.mp4'' \<or> endsWith file ''.mp3'') \<and> mtime_of d file > now - 60000)"
  by (auto simp: isVideoFile_def mtime_of_def dest!: statSync_listed)

lemma filterVideoFiles_listed:
  "set files \<subseteq> set (readdir d) \<Longrightarrow>
   filterVideoFiles now d downloadId files =
     Inr (filter (\<lambda>file. includes_str file downloadId \<or>
            (endsWith file ''.mp4'' \<or> endsWith file ''.mp3'') \<and> mtime_of d file > now - 60000)
          files)"
  by (induction files) (simp_all add: isVideoFile_listed)

text \<open>
  C5.  For the listing of the downloads directory, the filter never throws and keeps
  exactly the files whose name contains the download id, or whose name ends in
  \<^verbatim>\<open>.mp4\<close> or \<^verbatim>\<open>.mp3\<close> and whose modification time is later than 60 seconds
  before now: the disjunction of the two strategies, the extension and recency tests
  conjoined.
\<close>

theorem candidate_filter_is_or_of_two_strategies:
  "filterVideoFiles now d downloadId (readdir d) =
     Inr (filter (\<lambda>file. includes_str file downloadId \<or>
            ((endsWith file ''.mp4'' \<or> endsWith file ''.mp3'') \<and>
             mtime_of d file > now - 60000))
          (readdir d))"
  by (rule filterVideoFiles_listed) simp

subsection \<open>The status writes of one run\<close>

lemma silent_await: "silent (await r)"
  by (simp add: silent_def await_def)

lemma silent_ret: "silent (ret x)"
  by (simp add: silent_def ret_def)

lemma silent_throw: "silent (throw e)"
  by (simp add: silent_def throw_def)

lemma silent_browser_writes: "silent (browser_writes es)"
  by (simp add: silent_def browser_writes_def)

lemma silent_materialize_step: "silent (materialize_step n k f)"
  by (simp add: silent_def materialize_step_def split: prod.splits)

lemma silent_if: "silent a \<Longrightarrow> silent b \<Longrightarrow> silent (if c then a else b)"
  by simp

lemma silent_and_then: "silent m \<Longrightarrow> (\<And>x. silent (f x)) \<Longrightarrow> silent (and_then m f)"
  unfolding silent_def and_then_def
  by (auto split: prod.splits sum.splits) (metis fst_conv)+

lemma silent_no_button_found: "silent (no_button_found env k)"
  unfolding no_button_found_def
  by (intro silent_and_then silent_await silent_browser_writes silent_throw)

lemma silent_finally_block: "silent (finally_block env)"
  unfolding finally_block_def by (intro silent_if silent_ret silent_await)

lemma appends_ret: "appends (ret x) k []"
  by (simp add: appends_def ret_def)

lemma appends_silent_then:
  assumes "silent m" and "\<And>x. appends (f x) k ps" and "ps \<noteq> []"
  shows "appends (and_then m f) k ps"
  unfolding appends_def
proof
  fix w
  obtain w' r where mw: "m w = (w', r)" by (cases "m w")
  with assms(1) have same: "set_calls w' = set_calls w"
    by (auto simp: silent_def dest: spec [of _ w])
  show "\<exists>cs. set_calls (fst (and_then m f w)) = set_calls w @ cs \<and>
          list_all (\<lambda>c. fst c = k) cs \<and>
          (case snd (and_then m f w) of
             Inl e \<Rightarrow> strict_prefix (map (\<lambda>c. status (snd c)) cs) ps
           | Inr x \<Rightarrow> map (\<lambda>c. status (snd c)) cs = ps)"
  proof (cases r)
    case (Inl e)
    with mw same assms(3) show ?thesis
      by (intro exI [of _ "[]"]) (cases ps; simp add: and_then_def)
  next
    case (Inr x)
    with mw have "and_then m f w = f x w'" by (simp add: and_then_def)
    with assms(2) [of x] same show ?thesis
      by (simp add: appends_def) metis
  qed
qed

lemma appends_set_then:
  assumes "status v = p" and "appends (f ()) k ps"
  shows "appends (and_then (status_set k v) f) k (p # ps)"
  unfolding appends_def
proof
  fix w :: world
  let ?w' = "w\<lparr>downloadStatus := (downloadStatus w)(k \<mapsto> v),
               set_calls := set_calls w @ [(k, v)]\<rparr>"
  have run: "and_then (status_set k v) f w = f () ?w'"
    by (simp add: and_then_def status_set_def)
  from assms(2) obtain cs where cs:
    "set_calls (fst (f () ?w')) = set_calls ?w' @ cs"
    "list_all (\<lambda>c. fst c = k) cs"
    "(case snd (f () ?w') of
        Inl e \<Rightarrow> strict_prefix (map (\<lambda>c. status (snd c)) cs) ps
      | Inr x \<Rightarrow> map (\<lambda>c. status (snd c)) cs = ps)"
    unfolding appends_def by blast
  show "\<exists>cs. set_calls (fst (and_then (status_set k v) f w)) = set_calls w @ cs \<and>
          list_all (\<lambda>c. fst c = k) cs \<and>
          (case snd (and_then (status_set k v) f w) of
             Inl e \<Rightarrow> strict_prefix (map (\<lambda>c. status (snd c)) cs) (p # ps)
           | Inr x \<Rightarrow> map (\<lambda>c. status (snd c)) cs = p # ps)"
    using cs assms(1)
    by (intro exI [of _ "(k, v) # cs"]) (auto simp: run split: sum.splits)
qed

lemma appends_automation:
  "appends (automation env videoUrl fmt k) k
     [Loading, Filling, Processing, Downloading, Completed]"
  unfolding automation_def
  by (intro appends_silent_then appends_set_then appends_ret silent_await silent_if
        silent_throw silent_ret silent_no_button_found silent_browser_writes
        silent_materialize_step)
     (simp_all add: completed_status_def)

lemma strict_prefix_cases:
  "strict_prefix qs [Loading, Filling, Processing, Downloading, Completed] \<Longrightarrow>
   qs \<in> {[], [Loading], [Loading, Filling], [Loading, Filling, Processing],
          [Loading, Filling, Processing, Downloading]}"
  by (auto simp: strict_prefix_def prefix_Cons Cons_eq_append_conv)

lemma set_calls_try_finally:
  assumes "silent fin"
  shows "set_calls (fst (try_finally body fin w)) = set_calls (fst (body w))"
proof -
  obtain w' r where b: "body w = (w', r)" by (cases "body w")
  obtain w'' r' where f: "fin w' = (w'', r')" by (cases "fin w'")
  from assms f have "set_calls w'' = set_calls w'"
    unfolding silent_def by (metis fst_conv)
  with b f show ?thesis
    by (simp add: try_finally_def split: sum.splits)
qed

lemma set_calls_try_catch:
  "set_calls (fst (try_catch body (catch_block k) w)) =
     (case snd (body w) of
        Inl e \<Rightarrow> set_calls (fst (body w)) @ [(k, error_status e)]
      | Inr x \<Rightarrow> set_calls (fst (body w)))"
  by (cases "body w")
     (simp add: try_catch_def catch_block_def and_then_def status_set_def ret_def
        split: sum.splits)

lemma run_writes_walk:
  "map (\<lambda>c. status (snd c)) (run_writes env videoUrl fmt k w) \<in> walks \<and>
   list_all (\<lambda>c. fst c = k) (run_writes env videoUrl fmt k w)"
proof -
  define w1 where "w1 = w\<lparr>downloadStatus := (downloadStatus w)(k \<mapsto> starting_status),
    set_calls := set_calls w @ [(k, starting_status)]\<rparr>"
  define rest where "rest = automation env videoUrl fmt k"
  have body: "try_block env videoUrl fmt k w = rest w1"
    by (simp add: try_block_def and_then_def set_starting_def status_set_def w1_def rest_def)
  have "appends rest k [Loading, Filling, Processing, Downloading, Completed]"
    unfolding rest_def by (rule appends_automation)
  then obtain cs where cs:
    "set_calls (fst (rest w1)) = set_calls w1 @ cs"
    "list_all (\<lambda>c. fst c = k) cs"
    "(case snd (rest w1) of
        Inl e \<Rightarrow> strict_prefix (map (\<lambda>c. status (snd c)) cs)
                   [Loading, Filling, Processing, Downloading, Completed]
      | Inr x \<Rightarrow> map (\<lambda>c. status (snd c)) cs =
                   [Loading, Filling, Processing, Downloading, Completed])"
    unfolding appends_def by blast
  have writes: "run_writes env videoUrl fmt k w =
     (case snd (rest w1) of
        Inl e \<Rightarrow> (k, starting_status) # cs @ [(k, error_status e)]
      | Inr x \<Rightarrow> (k, starting_status) # cs)"
    using cs(1) body
    by (simp add: run_writes_def downloadVideoWithPuppeteer_def set_calls_try_finally
          silent_finally_block set_calls_try_catch w1_def split: sum.splits)
  show ?thesis
  proof (cases "snd (rest w1)")
    case (Inl e)
    with cs(3) have "map (\<lambda>c. status (snd c)) cs \<in> {[], [Loading], [Loading, Filling],
          [Loading, Filling, Processing], [Loading, Filling, Processing, Downloading]}"
      by (intro strict_prefix_cases) simp
    with Inl cs(2) show ?thesis
      by (auto simp: writes walks_def starting_status_def error_status_def)
  next
    case (Inr x)
    with cs(2,3) show ?thesis
      by (auto simp: writes walks_def starting_status_def)
  qed
qed

lemmas prog_eval = downloadVideoWithPuppeteer_def try_block_def automation_def set_starting_def
  catch_block_def finally_block_def try_finally_def try_catch_def and_then_def await_def ret_def
  throw_def status_set_def browser_writes_def materialize_step_def no_button_found_def

lemmas string_eval = includes_str_def endsWith_def sublist_code suffix_to_prefix

lemmas fs_eval = readdir_def statSync_def pathExists_def existsSync_def unlink_def
  move_overwrite_def mtime_of_def canonical_name_def write_file_def

lemmas materialize_eval = materialize_def isVideoFile_def rename_latest_def verify_file_def
  Let_def

lemma run_writes_completed_example:
  "map (\<lambda>c. phase_name (status (snd c)))
     (run_writes env_ok (JString ''https://kick.com/video/1'') ''mp4'' ''job1''
        (initial_world [])) =
   [''starting'', ''loading'', ''filling'', ''processing'', ''downloading'', ''completed'']"
  by (simp add: run_writes_def env_ok_def initial_world_def prog_eval string_eval fs_eval
        materialize_eval starting_status_def completed_status_def)

lemma run_writes_failed_example:
  "map (\<lambda>c. phase_name (status (snd c)))
     (run_writes env_timeout
        (JString ''https://kick.com/video/1'') ''mp4'' ''job1'' (initial_world [])) =
   [''starting'', ''loading'', ''error'']"
  by (simp add: run_writes_def env_timeout_def env_ok_def initial_world_def prog_eval
        string_eval fs_eval
        materialize_eval starting_status_def completed_status_def error_status_def)

lemma walks_forward:
  assumes "ps \<in> walks"
  shows "ps \<noteq> [] \<and> sorted (map phase_rank ps) \<and> terminal (last ps) \<and>
         list_all (\<lambda>p. \<not> terminal p) (butlast ps)"
  using assms by (auto simp: walks_def terminal_def)

text \<open>
  C1.  In one run of the download task, every \<^verbatim>\<open>downloadStatus.set\<close> call is for the
  run's own download id; the status values written, in order, never step back in the
  phase ordering (starting, loading, filling, processing, downloading, then completed
  or error); the last one written is terminal (completed or error) and none before
  it is, so no write follows a terminal one.
\<close>

theorem status_writes_walk_forward:
  "list_all (\<lambda>c. fst c = downloadId) (run_writes env videoUrl fmt downloadId w) \<and>
   map (\<lambda>c. status (snd c)) (run_writes env videoUrl fmt downloadId w) \<noteq> [] \<and>
   sorted (map phase_rank
     (map (\<lambda>c. status (snd c)) (run_writes env videoUrl fmt downloadId w))) \<and>
   terminal (last (map (\<lambda>c. status (snd c)) (run_writes env videoUrl fmt downloadId w))) \<and>
   list_all (\<lambda>p. \<not> terminal p)
     (butlast (map (\<lambda>c. status (snd c)) (run_writes env videoUrl fmt downloadId w)))"
  using run_writes_walk [of env videoUrl fmt downloadId w]
        walks_forward [of "map (\<lambda>c. status (snd c)) (run_writes env videoUrl fmt downloadId w)"]
  by blast

subsection \<open>The periodic sweep\<close>

lemma sweep_file_filter:
  assumes "distinct (map fst d)"
  shows "sweep_file senv h d name = filter (\<lambda>e. fst e \<noteq> name \<or> \<not> reaped senv h e) d"
proof (cases "map_of d name")
  case None
  then have "\<forall>e \<in> set d. fst e \<noteq> name"
    by (auto simp: map_of_eq_None_iff)
  with None show ?thesis
    by (simp add: sweep_file_def statSync_def split: sum.splits)
next
  case (Some st)
  have only: "snd e = st" if "e \<in> set d" "fst e = name" for e
  proof -
    from that have "(name, snd e) \<in> set d" by (metis prod.collapse)
    with assms have "map_of d name = Some (snd e)" by (rule map_of_is_SomeI)
    with Some show ?thesis by simp
  qed
  show ?thesis
  proof (cases "mtime st < h \<and> \<not> isl (sweep_stat senv name) \<and> \<not> isl (sweep_unlink senv name)")
    case True
    with only have "filter (\<lambda>e. fst e \<noteq> name \<or> \<not> reaped senv h e) d =
                    filter (\<lambda>e. fst e \<noteq> name) d"
      by (intro filter_cong refl) (auto simp: reaped_def)
    with Some True show ?thesis
      by (auto simp: sweep_file_def statSync_def unlink_def split: sum.splits)
  next
    case False
    with only have "filter (\<lambda>e. fst e \<noteq> name \<or> \<not> reaped senv h e) d = d"
      unfolding filter_id_conv reaped_def by blast
    with Some False show ?thesis
      by (auto simp: sweep_file_def statSync_def split: sum.splits)
  qed
qed

lemma fold_sweep_filter:
  "distinct (map fst d) \<Longrightarrow>
   fold (\<lambda>name dir. sweep_file senv h dir name) names d =
     filter (\<lambda>e. fst e \<notin> set names \<or> \<not> reaped senv h e) d"
proof (induction names arbitrary: d)
  case Nil
  then show ?case by simp
next
  case (Cons name names)
  let ?d = "filter (\<lambda>e. fst e \<noteq> name \<or> \<not> reaped senv h e) d"
  from Cons.prems have "distinct (map fst ?d)" by (simp add: distinct_map_filter)
  with Cons.IH [of ?d] have "fold (\<lambda>name dir. sweep_file senv h dir name) names ?d =
     filter (\<lambda>e. fst e \<notin> set names \<or> \<not> reaped senv h e) ?d" by simp
  moreover have "filter (\<lambda>e. fst e \<notin> set names \<or> \<not> reaped senv h e) ?d =
     filter (\<lambda>e. fst e \<notin> set (name # names) \<or> \<not> reaped senv h e) d"
    unfolding filter_filter by (intro filter_cong refl) auto
  ultimately show ?case using Cons.prems
    by (simp add: sweep_file_filter)
qed

lemma cleanupOldFiles_filter:
  assumes "distinct (map fst d)"
  shows "cleanupOldFiles senv now d =
           (if isl (sweep_readdir senv) then d
            else filter (\<lambda>e. \<not> reaped senv (now - 3600000) e) d)"
proof -
  have "filter (\<lambda>e. fst e \<notin> set (map fst d) \<or> \<not> reaped senv (now - 3600000) e) d =
        filter (\<lambda>e. \<not> reaped senv (now - 3600000) e) d"
    by (intro filter_cong refl) auto
  with assms show ?thesis
    by (simp add: cleanupOldFiles_def readdir_def fold_sweep_filter split: sum.splits)
qed

theorem janitor_unlink_failure_counterexample:
  "statSync dir_sweep ''old.mp4'' = Inr \<lparr>mtime = 1000, size_bytes = 5000\<rparr> \<and>
   (1000 :: int) < 10000000 - 60 * 60 * 1000 \<and>
   statSync (downloads (janitor sweep_busy 10000000 (initial_world dir_sweep))) ''old.mp4'' =
     Inr \<lparr>mtime = 1000, size_bytes = 5000\<rparr>"
  by (simp add: janitor_def cleanupOldFiles_def sweep_file_def sweep_busy_def dir_sweep_def
        initial_world_def fs_eval)

text \<open>
  C9, as amended.  A sweep whose listing of the directory succeeds (the file names
  being distinct) removes exactly the entries whose modification time is earlier than
  one hour before now and whose \<^verbatim>\<open>stat\<close> and \<^verbatim>\<open>unlink\<close> both succeed; every other
  entry, a newer one above all, stays as it was and in the same order.  A sweep whose
  listing fails removes nothing.  The result is the same whatever the job map holds,
  and the sweep leaves the job map as it is.
\<close>

theorem janitor_deletes_old_files_it_can_unlink:
  assumes "distinct (map fst (downloads w))"
  shows "downloads (janitor senv now w) =
           (if isl (sweep_readdir senv) then downloads w
            else filter
                   (\<lambda>e. \<not> (mtime (snd e) < now - 60 * 60 * 1000 \<and>
                            \<not> isl (sweep_stat senv (fst e)) \<and>
                            \<not> isl (sweep_unlink senv (fst e))))
                   (downloads w)) \<and>
         downloads (janitor senv now (w\<lparr>downloadStatus := store\<rparr>)) =
           downloads (janitor senv now w) \<and>
         downloadStatus (janitor senv now w) = downloadStatus w"
  using assms by (simp add: janitor_def cleanupOldFiles_filter reaped_def)

theorem janitor_deletes_old_files_it_can_unlink_witness:
  "distinct (map fst dir_sweep) \<and>
   downloads (janitor sweep_ok 10000000 (initial_world dir_sweep)) =
     [(''job1.mp4'', \<lparr>mtime = 7000000, size_bytes = 7000\<rparr>),
      (''edge.mp3'', \<lparr>mtime = 6400000, size_bytes = 10\<rparr>)] \<and>
   downloads (janitor sweep_busy 10000000 (initial_world dir_sweep)) = dir_sweep \<and>
   downloads (janitor (sweep_ok\<lparr>sweep_readdir := Inl ''ENOENT: no such file or directory''\<rparr>)
                10000000 (initial_world dir_sweep)) = dir_sweep"
  using janitor_deletes_old_files_it_can_unlink [of "initial_world dir_sweep" sweep_ok 10000000]
        janitor_deletes_old_files_it_can_unlink [of "initial_world dir_sweep" sweep_busy 10000000]
        janitor_deletes_old_files_it_can_unlink [of "initial_world dir_sweep"
          "sweep_ok\<lparr>sweep_readdir := Inl ''ENOENT: no such file or directory''\<rparr>" 10000000]
  by (simp add: dir_sweep_def initial_world_def sweep_ok_def sweep_busy_def)

subsection \<open>Accepting a download request\<close>

theorem post_download_without_url_counterexample:
  "supported (body_format body_no_url) \<and>
   post_download body_no_url ''id-1'' (initial_world []) =
     (initial_world [],
      JsonResponse 400
        [(''error'', JString ''URL del video es requerida''),
         (''required_fields'', JArray [JString ''videoUrl'']),
         (''optional_fields'', JArray [JString ''format'', JString ''title''])])"
  by (simp add: post_download_def body_no_url_def supported_def)

text \<open>
  C4, as amended.  A request whose \<^verbatim>\<open>videoUrl\<close> is truthy and whose format is
  supported is accepted: the response is 200 with the issued id, the job map holds
  the starting status under that id, and the task is started.  A request whose format
  is not supported, or whose \<^verbatim>\<open>videoUrl\<close> is not truthy, is answered 400 and leaves
  the state, the job map with it, as it was.
\<close>

theorem post_download_accepts_supported_formats:
  "(truthy (body_videoUrl body) \<and> supported (body_format body) \<longrightarrow>
      (\<exists>w'. post_download body uuid w =
          (w', JsonResponse 200
                 [(''success'', JBool True),
                  (''downloadId'', JString uuid),
                  (''message'', JString ''Descarga iniciada''),
                  (''statusUrl'', JString (''/status/'' @ uuid)),
                  (''downloadUrl'', JString (''/file/'' @ uuid))]) \<and>
         downloadStatus w' = (downloadStatus w)(uuid \<mapsto> starting_status) \<and>
         pending w' = pending w @ [(the (body_videoUrl body),
            (case body_format body of None \<Rightarrow> ''mp4'' | Some f \<Rightarrow> string_value f), uuid)])) \<and>
   (\<not> supported (body_format body) \<or> \<not> truthy (body_videoUrl body) \<longrightarrow>
      fst (post_download body uuid w) = w \<and>
      status_code (snd (post_download body uuid w)) = 400)"
  by (auto simp: post_download_def supported_def start_task_def set_starting_def
        status_set_def Let_def)

theorem post_download_accepts_supported_formats_witness:
  "truthy (body_videoUrl body_mp3) \<and> supported (body_format body_mp3) \<and>
   snd (post_download body_mp3 ''id-1'' (initial_world [])) =
     JsonResponse 200
       [(''success'', JBool True),
        (''downloadId'', JString ''id-1''),
        (''message'', JString ''Descarga iniciada''),
        (''statusUrl'', JString ''/status/id-1''),
        (''downloadUrl'', JString ''/file/id-1'')] \<and>
   \<not> supported (body_format body_avi) \<and>
   fst (post_download body_avi ''id-2'' (initial_world [])) = initial_world [] \<and>
   status_code (snd (post_download body_avi ''id-2'' (initial_world []))) = 400"
  using post_download_accepts_supported_formats [of body_mp3 "''id-1''" "initial_world []"]
        post_download_accepts_supported_formats [of body_avi "''id-2''" "initial_world []"]
  by (auto simp: body_mp3_def body_avi_def supported_def)

subsection \<open>Selecting and renaming the latest candidate\<close>

lemma mtime_of_listed:
  "statSync d name = Inr st \<Longrightarrow> mtime_of d name = mtime st"
  by (auto simp: statSync_def mtime_of_def split: option.splits)

lemma reduce_latest_listed:
  "latest \<in> set (readdir d) \<Longrightarrow> set rest \<subseteq> set (readdir d) \<Longrightarrow>
   \<exists>r. reduce_latest d latest rest = Inr r \<and> r \<in> set (latest # rest) \<and>
       (\<forall>c \<in> set (latest # rest). mtime_of d c \<le> mtime_of d r)"
proof (induction rest arbitrary: latest)
  case Nil
  then show ?case by simp
next
  case (Cons current rest)
  from Cons.prems obtain cs ls where
    cs: "statSync d current = Inr cs" and ls: "statSync d latest = Inr ls"
    by (auto dest!: statSync_listed)
  let ?next = "if mtime cs > mtime ls then current else latest"
  from Cons.prems have "?next \<in> set (readdir d)" "set rest \<subseteq> set (readdir d)" by auto
  from Cons.IH [OF this] obtain r where r: "reduce_latest d ?next rest = Inr r"
    "r \<in> set (?next # rest)" "\<forall>c \<in> set (?next # rest). mtime_of d c \<le> mtime_of d r"
    by blast
  from r(3) have "mtime_of d ?next \<le> mtime_of d r" by simp
  with cs ls have "mtime_of d current \<le> mtime_of d r" "mtime_of d latest \<le> mtime_of d r"
    by (auto simp: mtime_of_listed split: if_splits)
  with r cs ls show ?case
    by (auto split: if_splits)
qed

lemma map_of_unlink: "map_of (unlink d x) y = (if y = x then None else map_of d y)"
  unfolding unlink_def by (induction d) auto

lemma move_overwrite_listed:
  assumes "map_of d oldPath = Some st"
  shows "\<exists>d'. move_overwrite d oldPath finalPath = Inr d' \<and> map_of d' finalPath = Some st \<and>
           (oldPath \<noteq> finalPath \<longrightarrow> map_of d' oldPath = None) \<and>
           (\<forall>x. x \<noteq> oldPath \<and> x \<noteq> finalPath \<longrightarrow> map_of d' x = map_of d x)"
  using assms
  by (auto simp: move_overwrite_def map_of_unlink map_add_def split: option.splits)

lemma rename_latest_listed:
  assumes "set videoFiles \<subseteq> set (readdir d)" and "videoFiles \<noteq> []"
  shows "\<exists>latest d'. rename_latest d finalPath videoFiles = Inr d' \<and>
           latest \<in> set videoFiles \<and>
           (\<forall>c \<in> set videoFiles. mtime_of d c \<le> mtime_of d latest) \<and>
           map_of d' finalPath = map_of d latest \<and> map_of d latest \<noteq> None \<and>
           (latest \<noteq> finalPath \<longrightarrow> map_of d' latest = None)"
proof -
  from assms obtain first others where vf: "videoFiles = first # others"
    by (cases videoFiles) auto
  with assms(1) have "first \<in> set (readdir d)" "set others \<subseteq> set (readdir d)" by auto
  from reduce_latest_listed [OF this] obtain latest where
    l: "reduce_latest d first others = Inr latest" "latest \<in> set videoFiles"
       "\<forall>c \<in> set videoFiles. mtime_of d c \<le> mtime_of d latest"
    unfolding vf by blast
  with assms(1) obtain st where st: "map_of d latest = Some st"
    by (auto dest!: statSync_listed)
  show ?thesis
  proof (cases "latest = finalPath")
    case True
    with l st vf show ?thesis
      by (intro exI [of _ latest] exI [of _ d]) (simp add: rename_latest_def)
  next
    case False
    from move_overwrite_listed [OF st, of finalPath] obtain d' where
      "move_overwrite d latest finalPath = Inr d'" "map_of d' finalPath = Some st"
      "latest \<noteq> finalPath \<longrightarrow> map_of d' latest = None"
      by blast
    with False l st vf show ?thesis
      by (intro exI [of _ latest] exI [of _ d']) (simp add: rename_latest_def)
  qed
qed

lemma materialize_shape:
  "\<exists>d'. rename_latest d (canonical_name k fmt)
            (filter (\<lambda>name. includes_str name k \<or>
               ((endsWith name ''.mp4'' \<or> endsWith name ''.mp3'') \<and>
                mtime_of d name > now - 60000)) (readdir d)) = Inr d' \<and>
         materialize now d k fmt = (d', verify_file d' (canonical_name k fmt))"
proof -
  let ?vf = "filter (\<lambda>name. includes_str name k \<or>
               ((endsWith name ''.mp4'' \<or> endsWith name ''.mp3'') \<and>
                mtime_of d name > now - 60000)) (readdir d)"
  have "\<exists>d'. rename_latest d (canonical_name k fmt) ?vf = Inr d'"
  proof (cases "?vf = []")
    case True
    then show ?thesis by (simp add: rename_latest_def)
  next
    case False
    have "set ?vf \<subseteq> set (readdir d)" by auto
    from rename_latest_listed [OF this False] show ?thesis by blast
  qed
  then obtain d' where "rename_latest d (canonical_name k fmt) ?vf = Inr d'" ..
  then show ?thesis
    by (simp add: materialize_def filterVideoFiles_listed)
qed

text \<open>
  C2.  When the candidate files are not none and their modification times differ, the
  materializer selects the candidate whose modification time is greater than that of
  every other candidate, and afterwards the canonical path \<^verbatim>\<open>${downloadId}.${format}\<close>
  holds that file, with its stats, whatever was at that path before; unless it was
  there already, the file is no longer under its old name.
\<close>

theorem materializer_moves_latest_candidate:
  assumes "filterVideoFiles now d downloadId (readdir d) = Inr videoFiles"
    and "videoFiles \<noteq> []"
    and "distinct (map (mtime_of d) videoFiles)"
  shows "\<exists>latest st. latest \<in> set videoFiles \<and>
           (\<forall>c \<in> set videoFiles. c \<noteq> latest \<longrightarrow> mtime_of d c < mtime_of d latest) \<and>
           statSync d latest = Inr st \<and>
           statSync (fst (materialize now d downloadId fmt)) (canonical_name downloadId fmt) = Inr st \<and>
           (latest \<noteq> canonical_name downloadId fmt \<longrightarrow>
              \<not> pathExists (fst (materialize now d downloadId fmt)) latest)"
proof -
  have vf: "videoFiles = filter (\<lambda>name. includes_str name downloadId \<or>
               ((endsWith name ''.mp4'' \<or> endsWith name ''.mp3'') \<and>
                mtime_of d name > now - 60000)) (readdir d)"
    using assms(1) by (simp add: filterVideoFiles_listed)
  then have sub: "set videoFiles \<subseteq> set (readdir d)" by auto
  from rename_latest_listed [OF sub assms(2), of "canonical_name downloadId fmt"]
  obtain latest d' where l:
    "rename_latest d (canonical_name downloadId fmt) videoFiles = Inr d'"
    "latest \<in> set videoFiles"
    "\<forall>c \<in> set videoFiles. mtime_of d c \<le> mtime_of d latest"
    "map_of d' (canonical_name downloadId fmt) = map_of d latest"
    "map_of d latest \<noteq> None"
    "latest \<noteq> canonical_name downloadId fmt \<longrightarrow> map_of d' latest = None"
    by blast
  from l(5) obtain st where st: "map_of d latest = Some st" by auto
  have d': "fst (materialize now d downloadId fmt) = d'"
    using l(1) assms(1) by (simp add: materialize_def)
  have strict: "mtime_of d c < mtime_of d latest" if "c \<in> set videoFiles" "c \<noteq> latest" for c
  proof -
    from assms(3) that l(2) have "mtime_of d c \<noteq> mtime_of d latest"
      by (auto simp: distinct_map inj_on_def)
    with l(3) that show ?thesis by fastforce
  qed
  show ?thesis
    using l(2,4,6) st strict
    by (intro exI [of _ latest] exI [of _ st]) (simp add: d' statSync_def pathExists_def)
qed

theorem materializer_moves_latest_candidate_witness:
  "filterVideoFiles 1000000 dir_three ''job1'' (readdir dir_three) =
     Inr [''a.mp4'', ''job1_clip.bin'', ''job1.mp4'', ''b.mp3''] \<and>
   distinct (map (mtime_of dir_three) [''a.mp4'', ''job1_clip.bin'', ''job1.mp4'', ''b.mp3'']) \<and>
   statSync (fst (materialize 1000000 dir_three ''job1'' ''mp4'')) ''job1.mp4'' =
     Inr \<lparr>mtime = 999000, size_bytes = 800\<rparr> \<and>
   \<not> pathExists (fst (materialize 1000000 dir_three ''job1'' ''mp4'')) ''b.mp3''"
proof -
  have cands: "filterVideoFiles 1000000 dir_three ''job1'' (readdir dir_three) =
     Inr [''a.mp4'', ''job1_clip.bin'', ''job1.mp4'', ''b.mp3'']"
    by (simp add: dir_three_def dir_before_def string_eval fs_eval materialize_eval)
  have nonempty: "[''a.mp4'', ''job1_clip.bin'', ''job1.mp4'', ''b.mp3''] \<noteq> []" by simp
  have times: "distinct (map (mtime_of dir_three)
     [''a.mp4'', ''job1_clip.bin'', ''job1.mp4'', ''b.mp3''])"
    by (simp add: dir_three_def dir_before_def mtime_of_def)
  from materializer_moves_latest_candidate [OF cands nonempty times, of "''mp4''"]
  obtain latest st where l:
    "latest \<in> set [''a.mp4'', ''job1_clip.bin'', ''job1.mp4'', ''b.mp3'']"
    "\<forall>c \<in> set [''a.mp4'', ''job1_clip.bin'', ''job1.mp4'', ''b.mp3''].
        c \<noteq> latest \<longrightarrow> mtime_of dir_three c < mtime_of dir_three latest"
    "statSync dir_three latest = Inr st"
    "statSync (fst (materialize 1000000 dir_three ''job1'' ''mp4''))
       (canonical_name ''job1'' ''mp4'') = Inr st"
    "latest \<noteq> canonical_name ''job1'' ''mp4'' \<longrightarrow>
       \<not> pathExists (fst (materialize 1000000 dir_three ''job1'' ''mp4'')) latest"
    by blast
  from l(1,2) have "latest = ''b.mp3''"
    by (auto simp: dir_three_def dir_before_def mtime_of_def)
  with l(3,4,5) cands times show ?thesis
    by (simp add: dir_three_def dir_before_def statSync_def canonical_name_def)
qed

subsection \<open>The outcome of a run\<close>

lemma wp_ret: "Q w (Inr x) \<Longrightarrow> wp (ret x) Q w" by (simp add: wp_def ret_def)
lemma wp_await_then:
  "(\<And>e. r = Inl e \<Longrightarrow> Q w (Inl e)) \<Longrightarrow> (\<And>x. r = Inr x \<Longrightarrow> wp (f x) Q w) \<Longrightarrow>
   wp (and_then (await r) f) Q w"
  by (cases r) (simp_all add: wp_def and_then_def await_def)
lemma wp_set_then:
  "wp (f ()) Q (w\<lparr>downloadStatus := (downloadStatus w)(k \<mapsto> v), set_calls := set_calls w @ [(k, v)]\<rparr>) \<Longrightarrow>
   wp (and_then (status_set k v) f) Q w"
  by (simp add: wp_def and_then_def status_set_def)
lemma wp_writes_then:
  "wp (f ()) Q (w\<lparr>downloads := foldl write_file (downloads w) es\<rparr>) \<Longrightarrow>
   wp (and_then (browser_writes es) f) Q w"
  by (simp add: wp_def and_then_def browser_writes_def)
lemma wp_guard_then:
  "(c \<Longrightarrow> Q w (Inl e)) \<Longrightarrow> (\<not> c \<Longrightarrow> wp (f ()) Q w) \<Longrightarrow>
   wp (and_then (if c then throw e else ret ()) f) Q w"
  by (simp add: wp_def and_then_def throw_def ret_def)
lemma no_button_found_throws: "isl (snd (no_button_found env k w))"
  by (simp add: no_button_found_def and_then_def await_def browser_writes_def throw_def
        split: sum.splits)
lemma wp_no_button_then:
  "(c \<Longrightarrow> (\<And>w' e. Q w' (Inl e))) \<Longrightarrow> (\<not> c \<Longrightarrow> wp (f ()) Q w) \<Longrightarrow>
   wp (and_then (if c then no_button_found env k else ret ()) f) Q w"
  using no_button_found_throws [of env k w]
  by (cases "no_button_found env k w") (auto simp add: wp_def and_then_def ret_def isl_def)
lemma wp_materialize_then:
  "(\<And>d' e. materialize n (downloads w) k fmt = (d', Inl e) \<Longrightarrow> Q (w\<lparr>downloads := d'\<rparr>) (Inl e)) \<Longrightarrow>
   (\<And>d' x. materialize n (downloads w) k fmt = (d', Inr x) \<Longrightarrow> wp (f x) Q (w\<lparr>downloads := d'\<rparr>)) \<Longrightarrow>
   wp (and_then (materialize_step n k fmt) f) Q w"
  by (cases "materialize n (downloads w) k fmt"; cases "snd (materialize n (downloads w) k fmt)")
     (simp_all add: wp_def and_then_def materialize_step_def)

lemma try_block_outcome:
  "wp (try_block env videoUrl fmt k) (try_post env k fmt w) w"
  unfolding try_block_def automation_def set_starting_def
  by (intro wp_await_then wp_set_then wp_writes_then wp_guard_then wp_no_button_then
        wp_materialize_then wp_ret)
     (simp_all add: try_post_def reaches_materializer_def seen_dir_def)

lemma run_world:
  "fst (try_finally (try_catch body (catch_block k)) (finally_block env) w) =
     (case body w of
        (w', Inl e) \<Rightarrow> w'\<lparr>downloadStatus := (downloadStatus w')(k \<mapsto> error_status e),
                         set_calls := set_calls w' @ [(k, error_status e)]\<rparr>
      | (w', Inr res) \<Rightarrow> w')"
  by (simp add: try_finally_def try_catch_def catch_block_def
        finally_block_def and_then_def status_set_def ret_def await_def
        split: prod.splits sum.splits)

lemma run_outcome:
  fixes env videoUrl fmt k w
  defines "w' \<equiv> fst (downloadVideoWithPuppeteer env videoUrl fmt k w)"
  shows "(\<exists>e. downloadStatus w' k = Some (error_status e) \<and>
              (reaches_materializer env \<longrightarrow>
                 materialize (clock env) (seen_dir env w) k fmt = (downloads w', Inl e))) \<or>
         (\<exists>found. downloadStatus w' k = Some (completed_status (fst found) (snd found)) \<and>
              materialize (clock env) (seen_dir env w) k fmt = (downloads w', Inr found))"
proof -
  obtain wb r where b: "try_block env videoUrl fmt k w = (wb, r)"
    by (cases "try_block env videoUrl fmt k w")
  with try_block_outcome [of env videoUrl fmt k w] have post: "try_post env k fmt w wb r"
    by (simp add: wp_def)
  show ?thesis
  proof (cases r)
    case (Inl e)
    with b post show ?thesis
      by (auto simp: w'_def downloadVideoWithPuppeteer_def run_world try_post_def)
  next
    case (Inr res)
    with b post show ?thesis
      by (auto simp: w'_def downloadVideoWithPuppeteer_def run_world try_post_def)
  qed
qed

lemma verify_file_small:
  "statSync d p = Inr f \<Longrightarrow> size_bytes f \<le> 1000 \<Longrightarrow> verify_file d p = Inl too_small"
  by (auto simp: verify_file_def statSync_def pathExists_def too_small_def split: option.splits)

lemma verify_file_Inr:
  "verify_file d p = Inr found \<Longrightarrow>
   \<exists>f. statSync d p = Inr f \<and> 1000 < size_bytes f \<and> found = (p, size_bytes f)"
  by (auto simp: verify_file_def statSync_def pathExists_def split: option.splits if_splits)

lemma materialize_verdict:
  "snd (materialize now d k fmt) = verify_file (fst (materialize now d k fmt)) (canonical_name k fmt)"
  using materialize_shape [of d k fmt now] by auto

lemma completed_run_file:
  fixes env videoUrl fmt k w
  defines "w' \<equiv> fst (downloadVideoWithPuppeteer env videoUrl fmt k w)"
  assumes "downloadStatus w' k = Some st" and "status st = Completed"
  shows "\<exists>f. statSync (downloads w') (canonical_name k fmt) = Inr f \<and> 1000 < size_bytes f \<and>
             st = completed_status (canonical_name k fmt) (size_bytes f)"
proof -
  from run_outcome [of env videoUrl fmt k w] assms obtain found where
    found: "st = completed_status (fst found) (snd found)"
      "materialize (clock env) (seen_dir env w) k fmt = (downloads w', Inr found)"
    by (auto simp: error_status_def)
  with materialize_verdict [of "clock env" "seen_dir env w" k fmt]
  have "verify_file (downloads w') (canonical_name k fmt) = Inr found" by simp
  from verify_file_Inr [OF this] found(1) show ?thesis by auto
qed

lemma run_reaching_materializer:
  fixes env videoUrl fmt k w
  defines "w' \<equiv> fst (downloadVideoWithPuppeteer env videoUrl fmt k w)"
  assumes "reaches_materializer env"
  shows "downloads w' = fst (materialize (clock env) (seen_dir env w) k fmt) \<and>
         downloadStatus w' k = Some
           (case snd (materialize (clock env) (seen_dir env w) k fmt) of
              Inl e \<Rightarrow> error_status e
            | Inr found \<Rightarrow> completed_status (fst found) (snd found))"
  using run_outcome [of env videoUrl fmt k w] assms by auto

lemma run_in_two_parts:
  "downloadVideoWithPuppeteer env videoUrl fmt k w =
     resume_task env videoUrl fmt k (start_task k w)"
  by (simp add: downloadVideoWithPuppeteer_def resume_task_def start_task_def try_block_def
        try_finally_def try_catch_def and_then_def set_starting_def status_set_def)

lemma reaches_env_ok: "reaches_materializer env_ok"
  by (simp add: reaches_materializer_def env_ok_def)

lemma reaches_env_small: "reaches_materializer env_small"
  by (simp add: reaches_materializer_def env_small_def env_ok_def)

lemma ok_world_eval:
  "downloads ok_world = [(''job1.mp4'', \<lparr>mtime = 999000, size_bytes = 5000\<rparr>)] \<and>
   downloadStatus ok_world ''job1'' = Some (completed_status ''job1.mp4'' 5000)"
  unfolding ok_world_def
  using run_reaching_materializer [OF reaches_env_ok, of "JString ''https://kick.com/video/1''"
          "''mp4''" "''job1''" "initial_world []"]
  by (simp add: env_ok_def seen_dir_def initial_world_def string_eval fs_eval materialize_eval)

lemma small_world_eval:
  "downloads small_world =
     [(''a.mp4'', \<lparr>mtime = 990000, size_bytes = 5000\<rparr>),
      (''job1_clip.bin'', \<lparr>mtime = 995000, size_bytes = 2000\<rparr>),
      (''stale.mp4'', \<lparr>mtime = 100, size_bytes = 9000\<rparr>),
      (''job1.mp4'', \<lparr>mtime = 999000, size_bytes = 800\<rparr>)] \<and>
   downloadStatus small_world ''job1'' = Some (error_status too_small)"
  unfolding small_world_def
  using run_reaching_materializer [OF reaches_env_small, of "JString ''https://kick.com/video/1''"
          "''mp4''" "''job1''" "initial_world dir_before"]
  by (simp add: env_small_def env_ok_def seen_dir_def initial_world_def dir_before_def
        string_eval fs_eval materialize_eval too_small_def)

lemma materialize_most_recent:
  assumes "filterVideoFiles now d k (readdir d) = Inr videoFiles"
    and "c \<in> set videoFiles"
    and "\<forall>c' \<in> set videoFiles. c' \<noteq> c \<longrightarrow> mtime_of d c' < mtime_of d c"
    and "statSync d c = Inr f"
  shows "statSync (fst (materialize now d k fmt)) (canonical_name k fmt) = Inr f \<and>
         snd (materialize now d k fmt) =
           verify_file (fst (materialize now d k fmt)) (canonical_name k fmt)"
proof -
  have "videoFiles = filter (\<lambda>name. includes_str name k \<or>
               ((endsWith name ''.mp4'' \<or> endsWith name ''.mp3'') \<and>
                mtime_of d name > now - 60000)) (readdir d)"
    using assms(1) by (simp add: filterVideoFiles_listed)
  then have sub: "set videoFiles \<subseteq> set (readdir d)" by auto
  from assms(2) have nonempty: "videoFiles \<noteq> []" by auto
  from rename_latest_listed [OF sub nonempty, of "canonical_name k fmt"]
  obtain latest d' where l:
    "rename_latest d (canonical_name k fmt) videoFiles = Inr d'"
    "latest \<in> set videoFiles"
    "\<forall>c' \<in> set videoFiles. mtime_of d c' \<le> mtime_of d latest"
    "map_of d' (canonical_name k fmt) = map_of d latest"
    by blast
  have "latest = c"
  proof (rule ccontr)
    assume "latest \<noteq> c"
    with assms(3) l(2) have "mtime_of d latest < mtime_of d c" by blast
    moreover from l(3) assms(2) have "mtime_of d c \<le> mtime_of d latest" by blast
    ultimately show False by simp
  qed
  moreover from assms(4) have "map_of d c = Some f"
    by (auto simp: statSync_def split: option.splits)
  ultimately have "statSync d' (canonical_name k fmt) = Inr f"
    using l(4) by (simp add: statSync_def)
  moreover have "materialize now d k fmt = (d', verify_file d' (canonical_name k fmt))"
    using assms(1) l(1) by (simp add: materialize_def)
  ultimately show ?thesis by simp
qed

text \<open>
  C6.  In a run that reaches the materializer, when the most recently modified of the
  candidate files in the directory the task lists has 1000 bytes or fewer, the job
  ends with status \<^verbatim>\<open>'error'\<close> and the message of line 295, whatever larger and
  older candidates there are; and so it does whenever the file at the canonical path
  after the rename has 1000 bytes or fewer.  In every run, when the job ends with status
  \<^verbatim>\<open>'completed'\<close>, the file at the canonical path exists and has more than 1000 bytes,
  and the status object records that path and that size.
\<close>

theorem too_small_artifact_fails_job:
  fixes env videoUrl fmt k w
  defines "w' \<equiv> fst (downloadVideoWithPuppeteer env videoUrl fmt k w)"
  shows "(reaches_materializer env \<and>
          filterVideoFiles (clock env) (seen_dir env w) k (readdir (seen_dir env w)) =
            Inr videoFiles \<and>
          c \<in> set videoFiles \<and>
          (\<forall>c' \<in> set videoFiles. c' \<noteq> c \<longrightarrow>
             mtime_of (seen_dir env w) c' < mtime_of (seen_dir env w) c) \<and>
          statSync (seen_dir env w) c = Inr f \<and> size_bytes f \<le> 1000 \<longrightarrow>
            downloadStatus w' k = Some (error_status too_small) \<and>
            statSync (downloads w') (canonical_name k fmt) = Inr f) \<and>
         (reaches_materializer env \<and> statSync (downloads w') (canonical_name k fmt) = Inr g \<and>
          size_bytes g \<le> 1000 \<longrightarrow>
            downloadStatus w' k = Some (error_status too_small)) \<and>
         (downloadStatus w' k = Some st \<and> status st = Completed \<longrightarrow>
            (\<exists>g. statSync (downloads w') (canonical_name k fmt) = Inr g \<and>
                 1000 < size_bytes g \<and>
                 st = completed_status (canonical_name k fmt) (size_bytes g)))"
proof (intro conjI impI)
  assume a: "reaches_materializer env \<and>
          filterVideoFiles (clock env) (seen_dir env w) k (readdir (seen_dir env w)) =
            Inr videoFiles \<and>
          c \<in> set videoFiles \<and>
          (\<forall>c' \<in> set videoFiles. c' \<noteq> c \<longrightarrow>
             mtime_of (seen_dir env w) c' < mtime_of (seen_dir env w) c) \<and>
          statSync (seen_dir env w) c = Inr f \<and> size_bytes f \<le> 1000"
  then have m: "statSync (fst (materialize (clock env) (seen_dir env w) k fmt))
        (canonical_name k fmt) = Inr f"
    "snd (materialize (clock env) (seen_dir env w) k fmt) =
       verify_file (fst (materialize (clock env) (seen_dir env w) k fmt)) (canonical_name k fmt)"
    using materialize_most_recent [of "clock env" "seen_dir env w" k videoFiles c f fmt]
    by blast+
  from m(1) a have "verify_file (fst (materialize (clock env) (seen_dir env w) k fmt))
      (canonical_name k fmt) = Inl too_small"
    by (intro verify_file_small) auto
  with m(2) have v: "snd (materialize (clock env) (seen_dir env w) k fmt) = Inl too_small"
    by simp
  from a run_reaching_materializer [of env videoUrl fmt k w]
  have d: "downloads w' = fst (materialize (clock env) (seen_dir env w) k fmt)"
    and s: "downloadStatus w' k = Some
           (case snd (materialize (clock env) (seen_dir env w) k fmt) of
              Inl e \<Rightarrow> error_status e
            | Inr found \<Rightarrow> completed_status (fst found) (snd found))"
    by (simp_all add: w'_def)
  from s v show "downloadStatus w' k = Some (error_status too_small)" by simp
  from d m(1) show "statSync (downloads w') (canonical_name k fmt) = Inr f" by simp
next
  assume a: "reaches_materializer env \<and>
    statSync (downloads w') (canonical_name k fmt) = Inr g \<and> size_bytes g \<le> 1000"
  with run_reaching_materializer [of env videoUrl fmt k w]
  have d: "downloads w' = fst (materialize (clock env) (seen_dir env w) k fmt)"
    and s: "downloadStatus w' k = Some
           (case snd (materialize (clock env) (seen_dir env w) k fmt) of
              Inl e \<Rightarrow> error_status e
            | Inr found \<Rightarrow> completed_status (fst found) (snd found))"
    by (simp_all add: w'_def)
  from a have "verify_file (downloads w') (canonical_name k fmt) = Inl too_small"
    by (intro verify_file_small) auto
  with d materialize_verdict [of "clock env" "seen_dir env w" k fmt]
  have "snd (materialize (clock env) (seen_dir env w) k fmt) = Inl too_small" by simp
  with s show "downloadStatus w' k = Some (error_status too_small)" by simp
next
  assume "downloadStatus w' k = Some st \<and> status st = Completed"
  then show "\<exists>g. statSync (downloads w') (canonical_name k fmt) = Inr g \<and>
                 1000 < size_bytes g \<and>
                 st = completed_status (canonical_name k fmt) (size_bytes g)"
    unfolding w'_def by (intro completed_run_file) auto
qed

theorem too_small_artifact_fails_job_witness:
  "reaches_materializer env_small \<and>
   seen_dir env_small (initial_world dir_before) = dir_three \<and>
   filterVideoFiles (clock env_small) dir_three ''job1'' (readdir dir_three) =
     Inr [''a.mp4'', ''job1_clip.bin'', ''job1.mp4'', ''b.mp3''] \<and>
   map (mtime_of dir_three) [''a.mp4'', ''job1_clip.bin'', ''job1.mp4'', ''b.mp3''] =
     [990000, 995000, 50, 999000] \<and>
   statSync dir_three ''a.mp4'' = Inr \<lparr>mtime = 990000, size_bytes = 5000\<rparr> \<and>
   statSync dir_three ''b.mp3'' = Inr \<lparr>mtime = 999000, size_bytes = 800\<rparr> \<and>
   downloadStatus small_world ''job1'' = Some (error_status too_small) \<and>
   statSync (downloads small_world) ''job1.mp4'' = Inr \<lparr>mtime = 999000, size_bytes = 800\<rparr> \<and>
   downloadStatus ok_world ''job1'' = Some (completed_status ''job1.mp4'' 5000) \<and>
   statSync (downloads ok_world) ''job1.mp4'' = Inr \<lparr>mtime = 999000, size_bytes = 5000\<rparr>"
proof -
  have seen: "seen_dir env_small (initial_world dir_before) = dir_three"
    by (simp add: seen_dir_def env_small_def env_ok_def initial_world_def dir_three_def
          dir_before_def write_file_def unlink_def)
  have cands: "filterVideoFiles (clock env_small) dir_three ''job1'' (readdir dir_three) =
      Inr [''a.mp4'', ''job1_clip.bin'', ''job1.mp4'', ''b.mp3'']"
    by (simp add: env_small_def env_ok_def dir_three_def dir_before_def string_eval fs_eval
          materialize_eval)
  have times: "map (mtime_of dir_three) [''a.mp4'', ''job1_clip.bin'', ''job1.mp4'', ''b.mp3''] =
      [990000, 995000, 50, 999000]"
    by (simp add: dir_three_def dir_before_def mtime_of_def)
  then have latest: "\<forall>c' \<in> set [''a.mp4'', ''job1_clip.bin'', ''job1.mp4'', ''b.mp3''].
      c' \<noteq> ''b.mp3'' \<longrightarrow> mtime_of dir_three c' < mtime_of dir_three ''b.mp3''"
    by simp
  have stats: "statSync dir_three ''a.mp4'' = Inr \<lparr>mtime = 990000, size_bytes = 5000\<rparr>"
    "statSync dir_three ''b.mp3'' = Inr \<lparr>mtime = 999000, size_bytes = 800\<rparr>"
    by (simp_all add: dir_three_def dir_before_def statSync_def)
  have ok: "downloadStatus ok_world ''job1'' = Some (completed_status ''job1.mp4'' 5000)"
    by (simp add: ok_world_eval)
  from too_small_artifact_fails_job [of env_small "initial_world dir_before" "''job1''"
      "[''a.mp4'', ''job1_clip.bin'', ''job1.mp4'', ''b.mp3'']" "''b.mp3''"
      "\<lparr>mtime = 999000, size_bytes = 800\<rparr>" "JString ''https://kick.com/video/1''" "''mp4''"]
    reaches_env_small cands latest stats(2)
  have small: "downloadStatus small_world ''job1'' = Some (error_status too_small) \<and>
      statSync (downloads small_world) ''job1.mp4'' = Inr \<lparr>mtime = 999000, size_bytes = 800\<rparr>"
    by (simp add: seen small_world_def canonical_name_def)
  from too_small_artifact_fails_job [where env = env_ok and w = "initial_world []"
      and k = "''job1''" and videoUrl = "JString ''https://kick.com/video/1''"
      and fmt = "''mp4''" and st = "completed_status ''job1.mp4'' 5000"] ok
  have "\<exists>g. statSync (downloads ok_world) (canonical_name ''job1'' ''mp4'') = Inr g \<and>
            1000 < size_bytes g \<and>
            completed_status ''job1.mp4'' 5000 =
              completed_status (canonical_name ''job1'' ''mp4'') (size_bytes g)"
    by (simp add: ok_world_def completed_status_def)
  then show ?thesis
    using reaches_env_small seen cands times stats small ok
    by (simp add: ok_world_eval statSync_def canonical_name_def)
qed

subsection \<open>The file endpoint\<close>

lemma failed_world_eval:
  "downloadStatus failed_world ''job1'' =
     Some (error_status ''Navigation timeout of 30000 ms exceeded'')"
  by (simp add: failed_world_def env_timeout_def env_ok_def initial_world_def prog_eval)

theorem file_of_failed_job_counterexample:
  "downloadStatus failed_world ''job1'' =
     Some (error_status ''Navigation timeout of 30000 ms exceeded'') \<and>
   status (error_status ''Navigation timeout of 30000 ms exceeded'') = Error \<and>
   status_code (get_file ''job1'' failed_world) = 202"
  by (simp add: get_file_def failed_world_eval error_status_def)

text \<open>
  C3, as amended.  For a download id whose stored status is \<^verbatim>\<open>'error'\<close>, the file
  endpoint answers 202 with the body of a download in progress: the error text of
  line 403, the status \<^verbatim>\<open>'error'\<close>, and the stored progress and message.
\<close>

theorem file_of_failed_job_is_202:
  assumes "downloadStatus w downloadId = Some st" and "status st = Error"
  shows "get_file downloadId w =
           JsonResponse 202
             [(''error'', JString (''Descarga a'' @ [CHR 0xFA] @ ''n en progreso'')),
              (''status'', JString ''error''),
              (''progress'', JNumber (int (progress st))),
              (''message'', JString (message st))]"
  using assms by (simp add: get_file_def)

theorem file_of_failed_job_is_202_witness:
  "downloadStatus failed_world ''job1'' =
     Some (error_status ''Navigation timeout of 30000 ms exceeded'') \<and>
   status (error_status ''Navigation timeout of 30000 ms exceeded'') = Error \<and>
   get_file ''job1'' failed_world =
     JsonResponse 202
       [(''error'', JString (''Descarga a'' @ [CHR 0xFA] @ ''n en progreso'')),
        (''status'', JString ''error''),
        (''progress'', JNumber 0),
        (''message'', JString ''Error: Navigation timeout of 30000 ms exceeded'')]"
  using file_of_failed_job_is_202 [of failed_world "''job1''"
          "error_status ''Navigation timeout of 30000 ms exceeded''"]
  by (simp add: failed_world_eval error_status_def)

lemma swept_world_eval:
  "downloadStatus swept_world ''job1'' = Some (completed_status ''job1.mp4'' 5000) \<and>
   downloads swept_world = []"
  by (simp add: swept_world_def janitor_def ok_world_eval cleanupOldFiles_def sweep_file_def
        sweep_ok_def fs_eval)

text \<open>
  C10.  For a download id whose stored status is \<^verbatim>\<open>'completed'\<close> while no file exists
  at the recorded path, the file endpoint answers 404 with the body
  \<^verbatim>\<open>{error: 'Archivo no encontrado', downloadId}\<close>; it neither streams nor reaches
  the error middleware.
\<close>

theorem file_of_completed_job_without_file_is_404:
  assumes "downloadStatus w downloadId = Some st" and "status st = Completed"
    and "filePath st = Some path" and "\<not> existsSync (downloads w) path"
  shows "get_file downloadId w =
           JsonResponse 404
             [(''error'', JString ''Archivo no encontrado''),
              (''downloadId'', JString downloadId)]"
  using assms by (simp add: get_file_def)

theorem file_of_completed_job_without_file_is_404_witness:
  "downloadStatus swept_world ''job1'' = Some (completed_status ''job1.mp4'' 5000) \<and>
   status (completed_status ''job1.mp4'' 5000) = Completed \<and>
   \<not> existsSync (downloads swept_world) ''job1.mp4'' \<and>
   get_file ''job1'' swept_world =
     JsonResponse 404
       [(''error'', JString ''Archivo no encontrado''), (''downloadId'', JString ''job1'')]"
  using file_of_completed_job_without_file_is_404
          [of swept_world "''job1''" "completed_status ''job1.mp4'' 5000" "''job1.mp4''"]
  by (simp add: swept_world_eval completed_status_def existsSync_def)

subsection \<open>Streaming the file\<close>

theorem file_endpoint_counterexample:
  "downloadStatus swept_world ''job1'' = Some (completed_status ''job1.mp4'' 5000) \<and>
   get_file ''job1'' swept_world =
     JsonResponse 404
       [(''error'', JString ''Archivo no encontrado''), (''downloadId'', JString ''job1'')]"
  by (simp add: swept_world_eval get_file_def completed_status_def existsSync_def)

text \<open>
  C7, as amended.  For a known download id, the file endpoint answers 202 with the
  stored status, progress and message while the stored status is not
  \<^verbatim>\<open>'completed'\<close>.  When the status is \<^verbatim>\<open>'completed'\<close> and the file at the recorded
  path exists, it streams that file as an attachment whose \<^verbatim>\<open>Content-Length\<close> is the
  size the file has on disk now.  In the state the completing run left, that size is the
  recorded \<^verbatim>\<open>fileSize\<close>.  When no file exists at the recorded path, the answer is
  404.
\<close>

theorem file_endpoint_202_or_stream:
  fixes env videoUrl fmt k w0
  defines "w' \<equiv> fst (downloadVideoWithPuppeteer env videoUrl fmt k w0)"
  shows
    "(downloadStatus w k = Some st \<and> status st \<noteq> Completed \<longrightarrow>
        get_file k w =
          JsonResponse 202
            [(''error'', JString (''Descarga a'' @ [CHR 0xFA] @ ''n en progreso'')),
             (''status'', JString (phase_name (status st))),
             (''progress'', JNumber (int (progress st))),
             (''message'', JString (message st))]) \<and>
     (downloadStatus w k = Some st \<and> status st = Completed \<and> filePath st = Some p \<and>
      statSync (downloads w) p = Inr f \<longrightarrow>
        get_file k w =
          FileResponse (''attachment; filename='' @ [CHR 0x22] @ p @ [CHR 0x22])
            (size_bytes f) ''application/octet-stream'' p) \<and>
     (downloadStatus w' k = Some st' \<and> status st' = Completed \<longrightarrow>
        (\<exists>n. fileSize st' = Some n \<and>
           get_file k w' =
             FileResponse
               (''attachment; filename='' @ [CHR 0x22] @ canonical_name k fmt @ [CHR 0x22])
               n ''application/octet-stream'' (canonical_name k fmt))) \<and>
     (downloadStatus w k = Some st \<and> status st = Completed \<and> filePath st = Some p \<and>
      \<not> existsSync (downloads w) p \<longrightarrow>
        status_code (get_file k w) = 404)"
proof (intro conjI impI)
  assume "downloadStatus w k = Some st \<and> status st \<noteq> Completed"
  then show "get_file k w =
          JsonResponse 202
            [(''error'', JString (''Descarga a'' @ [CHR 0xFA] @ ''n en progreso'')),
             (''status'', JString (phase_name (status st))),
             (''progress'', JNumber (int (progress st))),
             (''message'', JString (message st))]"
    by (simp add: get_file_def)
next
  assume "downloadStatus w k = Some st \<and> status st = Completed \<and> filePath st = Some p \<and>
      statSync (downloads w) p = Inr f"
  then show "get_file k w =
          FileResponse (''attachment; filename='' @ [CHR 0x22] @ p @ [CHR 0x22])
            (size_bytes f) ''application/octet-stream'' p"
    by (auto simp: get_file_def existsSync_def statSync_def split: option.splits)
next
  assume a: "downloadStatus w' k = Some st' \<and> status st' = Completed"
  then obtain g where g: "statSync (downloads w') (canonical_name k fmt) = Inr g"
    "st' = completed_status (canonical_name k fmt) (size_bytes g)"
    unfolding w'_def using completed_run_file [of env videoUrl fmt k w0 st'] by auto
  with a show "\<exists>n. fileSize st' = Some n \<and>
           get_file k w' =
             FileResponse
               (''attachment; filename='' @ [CHR 0x22] @ canonical_name k fmt @ [CHR 0x22])
               n ''application/octet-stream'' (canonical_name k fmt)"
    by (auto simp: get_file_def existsSync_def statSync_def completed_status_def
          split: option.splits)
next
  assume "downloadStatus w k = Some st \<and> status st = Completed \<and> filePath st = Some p \<and>
      \<not> existsSync (downloads w) p"
  then show "status_code (get_file k w) = 404"
    by (simp add: get_file_def)
qed

theorem file_endpoint_202_or_stream_witness:
  "downloadStatus starting_world ''id-1'' = Some starting_status \<and>
   get_file ''id-1'' starting_world =
     JsonResponse 202
       [(''error'', JString (''Descarga a'' @ [CHR 0xFA] @ ''n en progreso'')),
        (''status'', JString ''starting''),
        (''progress'', JNumber 0),
        (''message'', JString ''Iniciando navegador...'')] \<and>
   downloadStatus ok_world ''job1'' = Some (completed_status ''job1.mp4'' 5000) \<and>
   statSync (downloads ok_world) ''job1.mp4'' = Inr \<lparr>mtime = 999000, size_bytes = 5000\<rparr> \<and>
   get_file ''job1'' ok_world =
     FileResponse (''attachment; filename='' @ [CHR 0x22] @ ''job1.mp4'' @ [CHR 0x22])
       5000 ''application/octet-stream'' ''job1.mp4''"
proof -
  have s: "downloadStatus starting_world ''id-1'' = Some starting_status"
    by (simp add: starting_world_def post_download_def body_mp3_def start_task_def
          set_starting_def status_set_def initial_world_def Let_def)
  have o: "downloadStatus ok_world ''job1'' = Some (completed_status ''job1.mp4'' 5000)"
     "statSync (downloads ok_world) ''job1.mp4'' = Inr \<lparr>mtime = 999000, size_bytes = 5000\<rparr>"
    by (simp_all add: ok_world_eval statSync_def)
  from file_endpoint_202_or_stream [where w = starting_world and k = "''id-1''"
      and st = starting_status] s
  have "get_file ''id-1'' starting_world =
     JsonResponse 202
       [(''error'', JString (''Descarga a'' @ [CHR 0xFA] @ ''n en progreso'')),
        (''status'', JString ''starting''),
        (''progress'', JNumber 0),
        (''message'', JString ''Iniciando navegador...'')]"
    by (simp add: starting_status_def)
  moreover
  from file_endpoint_202_or_stream [where w = ok_world and k = "''job1''"
      and st = "completed_status ''job1.mp4'' 5000" and p = "''job1.mp4''"
      and f = "\<lparr>mtime = 999000, size_bytes = 5000\<rparr>"] o
  have "get_file ''job1'' ok_world =
     FileResponse (''attachment; filename='' @ [CHR 0x22] @ ''job1.mp4'' @ [CHR 0x22])
       5000 ''application/octet-stream'' ''job1.mp4''"
    by (simp add: completed_status_def)
  ultimately show ?thesis using s o by simp
qed

subsection \<open>The response and the task\<close>

lemma run_ends_terminal:
  "\<exists>st. downloadStatus (fst (downloadVideoWithPuppeteer env videoUrl fmt k w)) k = Some st \<and>
        terminal (status st)"
  using run_outcome [of env videoUrl fmt k w]
  by (auto simp: terminal_def error_status_def completed_status_def)

text \<open>
  C8.  For an accepted request, the handler's response is
  \<^verbatim>\<open>{success: true, downloadId, message, statusUrl, downloadUrl}\<close>, and it is sent in a
  state where the task has run only to its first \<^verbatim>\<open>await\<close>: the stored status is the
  starting one, which is not terminal, and the rest of the task has been added to the
  pending ones.  Run afterwards (here with no other task waiting), against any
  behaviour of the browser, the rest gives the state the whole task function gives and
  ends in a terminal status; the response, fixed before, does not depend on it.
\<close>

theorem response_precedes_automation:
  assumes "truthy (body_videoUrl body)" and "supported (body_format body)"
  shows
    "snd (post_download body uuid w) =
       JsonResponse 200
         [(''success'', JBool True),
          (''downloadId'', JString uuid),
          (''message'', JString ''Descarga iniciada''),
          (''statusUrl'', JString (''/status/'' @ uuid)),
          (''downloadUrl'', JString (''/file/'' @ uuid))] \<and>
     downloadStatus (fst (post_download body uuid w)) uuid = Some starting_status \<and>
     \<not> terminal (status starting_status) \<and>
     pending (fst (post_download body uuid w)) =
       pending w @ [(the (body_videoUrl body),
         (case body_format body of None \<Rightarrow> ''mp4'' | Some f \<Rightarrow> string_value f), uuid)] \<and>
     (pending w = [] \<longrightarrow>
        run_pending env (fst (post_download body uuid w)) =
          fst (downloadVideoWithPuppeteer env (the (body_videoUrl body))
                (case body_format body of None \<Rightarrow> ''mp4'' | Some f \<Rightarrow> string_value f)
                uuid w) \<and>
        (\<exists>st. downloadStatus (run_pending env (fst (post_download body uuid w))) uuid =
                Some st \<and> terminal (status st)))"
proof -
  let ?fmt = "case body_format body of None \<Rightarrow> ''mp4'' | Some f \<Rightarrow> string_value f"
  let ?url = "the (body_videoUrl body)"
  have accepted: "post_download body uuid w =
      ((start_task uuid w)\<lparr>pending := pending w @ [(?url, ?fmt, uuid)]\<rparr>,
       JsonResponse 200
         [(''success'', JBool True),
          (''downloadId'', JString uuid),
          (''message'', JString ''Descarga iniciada''),
          (''statusUrl'', JString (''/status/'' @ uuid)),
          (''downloadUrl'', JString (''/file/'' @ uuid))])"
    using assms
    by (auto simp: post_download_def supported_def Let_def start_task_def set_starting_def
          status_set_def)
  have later: "run_pending env (fst (post_download body uuid w)) =
      fst (downloadVideoWithPuppeteer env ?url ?fmt uuid w)" if "pending w = []"
  proof -
    from that have "(start_task uuid w)\<lparr>pending := []\<rparr> = start_task uuid w"
      by (simp add: start_task_def set_starting_def status_set_def)
    with that show ?thesis
      by (simp add: accepted run_pending_def run_in_two_parts)
  qed
  have now: "downloadStatus (fst (post_download body uuid w)) uuid = Some starting_status"
    "\<not> terminal (status starting_status)"
    "pending (fst (post_download body uuid w)) = pending w @ [(?url, ?fmt, uuid)]"
    by (simp_all add: accepted start_task_def set_starting_def status_set_def
          terminal_def starting_status_def)
  show ?thesis
    using run_ends_terminal [of env ?url ?fmt uuid w] now later
    by (simp add: accepted)
qed

theorem response_precedes_automation_witness:
  "truthy (body_videoUrl body_mp3) \<and> supported (body_format body_mp3) \<and>
   pending (initial_world []) = [] \<and>
   snd (post_download body_mp3 ''id-1'' (initial_world [])) =
     JsonResponse 200
       [(''success'', JBool True),
        (''downloadId'', JString ''id-1''),
        (''message'', JString ''Descarga iniciada''),
        (''statusUrl'', JString ''/status/id-1''),
        (''downloadUrl'', JString ''/file/id-1'')] \<and>
   downloadStatus starting_world ''id-1'' = Some starting_status \<and>
   pending starting_world = [(JString ''https://kick.com/video/1'', ''mp3'', ''id-1'')] \<and>
   run_pending env_ok starting_world =
     fst (downloadVideoWithPuppeteer env_ok (JString ''https://kick.com/video/1'') ''mp3''
            ''id-1'' (initial_world []))"
  using response_precedes_automation [of body_mp3 "''id-1''" "initial_world []" env_ok]
  by (simp add: body_mp3_def supported_def initial_world_def starting_world_def)

end
